theory Spec2Isabelle
  imports Complex_Main "HOL-Library.List_Lexorder" "HOL-Library.Char_ord"
begin

section \<open>JavaScript strings\<close>

text \<open>
  Identifiers, enumerated values and the fixed messages of the handlers are ASCII and
  are modelled as \<open>string\<close>; the default comparison of \<open>Array.prototype.sort\<close> on them is
  the lexicographic order on character codes, which is the order of \<open>char list\<close> here.

  Free text (the content of a message, the completion of the AI provider, skills and
  locations) is a list of UTF-16 code units, a code unit being a number below 65536.
  The string methods the handlers use on it (\<open>trim\<close>, \<open>includes\<close>, \<open>split\<close>, \<open>replace\<close>
  and \<open>match\<close> without the \<open>u\<close> flag) work code unit by code unit. \<open>str\<close> writes an
  ASCII literal as such a list.
\<close>

type_synonym js_string = "nat list"

definition str :: "string \<Rightarrow> js_string" where
  "str s = map of_char s"

text \<open>\<open>s.includes(sub)\<close>: \<open>sub\<close> occurs in \<open>s\<close> as a contiguous run.\<close>

definition startsWith :: "'a list \<Rightarrow> 'a list \<Rightarrow> bool" where
  "startsWith s sub = (take (length sub) s = sub)"

fun includesStr :: "'a list \<Rightarrow> 'a list \<Rightarrow> bool" where
  "includesStr [] sub = (sub = [])"
| "includesStr (c # cs) sub = (startsWith (c # cs) sub \<or> includesStr cs sub)"

text \<open>
  The code units that \<open>String.prototype.trim\<close> removes: the white space of ECMAScript
  (tab, vertical tab, form feed, space, no-break space, U+FEFF and the other characters
  of the Unicode class Zs: U+1680, U+2000 to U+200A, U+202F, U+205F, U+3000) and its line
  terminators (line feed, carriage return, U+2028, U+2029).
\<close>

definition isWhiteSpace :: "nat \<Rightarrow> bool" where
  "isWhiteSpace c =
     ((9 \<le> c \<and> c \<le> 13) \<or> c = 32 \<or> c = 160 \<or> c = 5760 \<or> (8192 \<le> c \<and> c \<le> 8202)
      \<or> c = 8232 \<or> c = 8233 \<or> c = 8239 \<or> c = 8287 \<or> c = 12288 \<or> c = 65279)"

definition trim :: "js_string \<Rightarrow> js_string" where
  "trim s = rev (dropWhile isWhiteSpace (rev (dropWhile isWhiteSpace s)))"

text \<open>\<open>s.split(/[..]/)\<close> for a character class: every separator ends a piece, and the
  empty string splits into one empty piece.\<close>

fun split :: "('a \<Rightarrow> bool) \<Rightarrow> 'a list \<Rightarrow> 'a list list" where
  "split sep [] = [[]]"
| "split sep (c # cs) =
     (if sep c then [] # split sep cs
      else (case split sep cs of [] \<Rightarrow> [[c]] | w # ws \<Rightarrow> (c # w) # ws))"

fun join :: "'a list \<Rightarrow> 'a list list \<Rightarrow> 'a list" where
  "join sep [] = []"
| "join sep [x] = x"
| "join sep (x # y # ys) = x @ sep @ join sep (y # ys)"

text \<open>Decimal rendering of a length inside a template literal.\<close>

fun string_of_nat :: "nat \<Rightarrow> string" where
  "string_of_nat n =
     (if n < 10 then [char_of (48 + n)]
      else string_of_nat (n div 10) @ [char_of (48 + n mod 10)])"

text \<open>
  \<open>text.match(/O[\s\S]*C/)\<close> for an opening character \<open>O\<close> and a closing character
  \<open>C\<close> (the pattern \<open>/\[.*\]/s\<close> is of the same shape): the match starts at the first
  \<open>O\<close> and, the star being greedy, ends at the last \<open>C\<close> behind it. There is no match when
  no \<open>C\<close> follows the first \<open>O\<close>, because then none follows a later \<open>O\<close> either.
\<close>

definition matchSpan :: "'a \<Rightarrow> 'a \<Rightarrow> 'a list \<Rightarrow> 'a list option" where
  "matchSpan opening closing s =
     (case dropWhile (\<lambda>c. c \<noteq> opening) s of
        [] \<Rightarrow> None
      | c # r \<Rightarrow>
          if closing \<in> set r
          then Some (c # rev (dropWhile (\<lambda>d. d \<noteq> closing) (rev r)))
          else None)"

text \<open>
  A value read from a JSON request body where the handler expects text: absent, a
  string, or a value of another type (a number, a boolean, \<open>null\<close>, an array or an
  object), of which the handlers only test the truthiness.
\<close>

datatype js_value = Undefined | JString js_string | NonString bool

definition truthyValue :: "js_value \<Rightarrow> bool" where
  "truthyValue v = (case v of Undefined \<Rightarrow> False | JString s \<Rightarrow> s \<noteq> [] | NonString b \<Rightarrow> b)"

text \<open>An identifier taken from a request is falsy when it is absent or empty.\<close>

definition truthy :: "string option \<Rightarrow> bool" where
  "truthy v = (case v of None \<Rightarrow> False | Some s \<Rightarrow> s \<noteq> [])"

text \<open>An error response: the status code and the \<open>error\<close> string of the JSON envelope.\<close>

datatype http_error = HttpError nat string

section \<open>Conversation identity (models/Message.js)\<close>

text \<open>
  \<open>generateConversationId\<close> receives the two identifiers already stringified
  (\<open>userId.toString()\<close>), sorts the pair and joins it with an underscore.
\<close>

definition generateConversationId :: "string \<Rightarrow> string \<Rightarrow> string" where
  "generateConversationId userId1 userId2 =
     (let ids = sort [userId1, userId2] in ids ! 0 @ ''_'' @ ids ! 1)"

text \<open>
  Every reference to a user in the schemas is a \<open>mongoose.Schema.Types.ObjectId\<close>, and
  every call of \<open>generateConversationId\<close> passes the authenticated user's identifier
  and one for which \<open>User.findById\<close> has found a user. The string form of such an
  identifier is 24 hexadecimal digits (lower case when rendered by the store; a client
  may send upper case).
\<close>

definition isHexDigit :: "char \<Rightarrow> bool" where
  "isHexDigit c = (c \<in> set ''0123456789abcdefABCDEF'')"

definition isObjectId :: "string \<Rightarrow> bool" where
  "isObjectId s = (length s = 24 \<and> list_all isHexDigit s)"

text \<open>
  Where a schema field or \<open>findById\<close> expects an ObjectId, the store casts the string it
  is given: a string of 24 hexadecimal digits denotes the identifier that the store
  renders in lower case, so two spellings that differ in case denote the same
  identifier; any other string is rejected with a \<open>CastError\<close>, here \<open>None\<close>. Stored
  identifiers are kept in their lower-case rendering.
\<close>

definition toLowerHex :: "char \<Rightarrow> char" where
  "toLowerHex c =
     (if c = CHR ''A'' then CHR ''a'' else if c = CHR ''B'' then CHR ''b''
      else if c = CHR ''C'' then CHR ''c'' else if c = CHR ''D'' then CHR ''d''
      else if c = CHR ''E'' then CHR ''e'' else if c = CHR ''F'' then CHR ''f'' else c)"

definition castObjectId :: "string \<Rightarrow> string option" where
  "castObjectId s = (if isObjectId s then Some (map toLowerHex s) else None)"

section \<open>Match scoring (routes/ai.js, POST /job-match)\<close>

record education_entry =
  degree :: js_string
  institution :: js_string

text \<open>The profile the handler builds from the user document.\<close>

record user_profile =
  bio :: js_string
  skills :: "js_string list"
  location :: js_string
  education :: "education_entry list"

record job =
  title :: js_string
  company :: js_string
  job_location :: js_string
  description :: js_string
  job_skills :: "js_string list"
  experienceLevel :: string
  jobType :: string
  workMode :: string
  paymentVerified :: bool
  job_transactionHash :: string
  job_blockchain :: string
  job_status :: string

record match_data =
  matchScore :: int
  matchCategory :: string
  strengths :: "js_string list"
  gaps :: "string list"
  recommendation :: string

text \<open>The table \<open>expLevelMap\<close> with its default \<open>|| [0, 2]\<close>.\<close>

definition expLevelMap :: "string \<Rightarrow> rat \<times> rat" where
  "expLevelMap level =
     (if level = ''entry'' then (0, 2)
      else if level = ''mid'' then (2, 5)
      else if level = ''senior'' then (5, 10)
      else if level = ''lead'' then (8, 20)
      else (0, 2))"

text \<open>\<open>Math.round\<close>: the nearest integer, a half rounded upwards.\<close>

definition Math_round :: "rat \<Rightarrow> int" where
  "Math_round x = \<lfloor>x + 1 / 2\<rfloor>"

text \<open>
  \<open>String.prototype.toLowerCase\<close> follows the Unicode case mappings; it is the
  parameter \<open>toLowerCase\<close> of the definitions below, which therefore hold for the
  function of the platform, whatever it does on each string.
\<close>

definition skillMatches ::
  "(js_string \<Rightarrow> js_string) \<Rightarrow> user_profile \<Rightarrow> job \<Rightarrow> js_string list"
where
  "skillMatches toLowerCase userProfile j =
     filter (\<lambda>skill. list_ex (\<lambda>jobSkill.
                 includesStr (toLowerCase jobSkill) (toLowerCase skill) \<or>
                 includesStr (toLowerCase skill) (toLowerCase jobSkill)) (job_skills j))
            (skills userProfile)"

definition skillScore :: "(js_string \<Rightarrow> js_string) \<Rightarrow> user_profile \<Rightarrow> job \<Rightarrow> rat" where
  "skillScore toLowerCase userProfile j =
     (of_nat (length (skillMatches toLowerCase userProfile j))
        / of_nat (max (length (job_skills j)) 1)) * 40"

definition expScore :: "job \<Rightarrow> rat \<Rightarrow> rat" where
  "expScore j totalYearsExperience =
     (case expLevelMap (experienceLevel j) of (minExp, maxExp) \<Rightarrow>
        if totalYearsExperience \<ge> minExp \<and> totalYearsExperience \<le> maxExp + 2 then 30
        else if totalYearsExperience \<ge> minExp then 20
        else 0)"

definition locationScore :: "(js_string \<Rightarrow> js_string) \<Rightarrow> user_profile \<Rightarrow> job \<Rightarrow> rat" where
  "locationScore toLowerCase userProfile j =
     (if workMode j = ''remote'' \<or>
         (location userProfile \<noteq> [] \<and>
          includesStr (toLowerCase (job_location j)) (toLowerCase (location userProfile)))
      then 15 else 5)"

definition educationScore :: "user_profile \<Rightarrow> rat" where
  "educationScore userProfile = (if length (education userProfile) > 0 then 15 else 5)"

definition category :: "int \<Rightarrow> string" where
  "category totalScore =
     (if totalScore \<ge> 90 then ''Gold Match''
      else if totalScore \<ge> 70 then ''Strong Match''
      else if totalScore \<ge> 50 then ''Good Match''
      else ''Partial Match'')"

text \<open>
  The body of the \<open>catch (parseError)\<close> block. The numbers of the source are doubles;
  they are modelled as rationals, and \<open>totalYearsExperience\<close>, which the handler derives
  from the dates of the experience entries and the current time, is an input. The
  experience entries are read nowhere else but in the prompt, so the profile carries
  none.
\<close>

definition fallbackMatch ::
  "(js_string \<Rightarrow> js_string) \<Rightarrow> user_profile \<Rightarrow> job \<Rightarrow> rat \<Rightarrow> match_data"
where
  "fallbackMatch toLowerCase userProfile j totalYearsExperience =
     (let matches = skillMatches toLowerCase userProfile j;
          totalScore = Math_round (skillScore toLowerCase userProfile j
                                   + expScore j totalYearsExperience
                                   + locationScore toLowerCase userProfile j
                                   + educationScore userProfile)
      in \<lparr> matchScore = totalScore,
           matchCategory = category totalScore,
           strengths = (if length matches > 0
                        then [str (string_of_nat (length matches) @ '' matching skills: '')
                              @ join (str '', '') (take 3 matches)]
                        else [str ''Review job requirements carefully'']),
           gaps = (if length matches < length (job_skills j)
                   then [''Consider upskilling in required technologies''] else []),
           recommendation = (if totalScore \<ge> 70 then ''Strong candidate - Apply now!''
                             else ''Review requirements and highlight relevant experience'') \<rparr>)"

section \<open>Notification fan-out (routes/notifications.js, models/Notification.js)\<close>

text \<open>The closed \<open>enum\<close> of the schema's \<open>type\<close> field, in the schema's order.\<close>

datatype notification_type =
    post_like | post_comment | connection_request | connection_accepted
  | profile_view | job_posted | job_application | message

text \<open>A stored notification; its references are cast identifiers.\<close>

record notification =
  n_recipient :: string
  n_sender :: string
  n_type :: notification_type
  n_post :: "string option"
  n_job :: "string option"
  n_message :: "string option"
  n_read :: bool
  n_createdAt :: nat

text \<open>
  The callers pass two kinds of values where \<open>createNotification\<close> expects a reference:
  \<open>Oid\<close>, an ObjectId taken from a stored document or the identifier of the
  authenticated user, given by its rendering, and \<open>Raw\<close>, a string taken from the
  request as the client spelled it (\<open>req.params.userId\<close> in the profile-view handler).
  \<open>toString\<close> is the string that \<open>createNotification\<close> compares; \<open>castId\<close> is the
  identifier that the schema stores, if the value can be cast.
\<close>

datatype id_value = Oid string | Raw string

fun toString :: "id_value \<Rightarrow> string" where
  "toString (Oid s) = s"
| "toString (Raw s) = s"

fun castId :: "id_value \<Rightarrow> string option" where
  "castId (Oid s) = Some s"
| "castId (Raw s) = castObjectId s"

text \<open>An optional reference: absent, or cast like a required one.\<close>

definition castRef :: "id_value option \<Rightarrow> string option option" where
  "castRef v = (case v of None \<Rightarrow> Some None | Some x \<Rightarrow> map_option Some (castId x))"

text \<open>The argument object of \<open>createNotification\<close>; an absent key is \<open>None\<close>.\<close>

record notification_args =
  recipient :: id_value
  sender :: id_value
  type :: notification_type
  post :: "id_value option"
  job :: "id_value option"
  message_text :: "string option"

text \<open>
  The notification collection is a list in insertion order. \<open>createNotification\<close>
  compares the two strings, builds the document, whose references the schema casts,
  and saves it: \<open>save\<close> rejects a document with a reference that cannot be cast, and
  the \<open>catch\<close> block then logs the error and returns \<open>null\<close> with nothing stored.
  \<open>read\<close> and \<open>createdAt\<close> are not passed and take the schema's defaults, \<open>false\<close> and
  the current time \<open>now\<close>. The function returns the created document, or \<open>None\<close> for
  JavaScript's \<open>null\<close>.
\<close>

definition createNotification ::
  "nat \<Rightarrow> notification_args \<Rightarrow> notification list \<Rightarrow> notification option \<times> notification list"
where
  "createNotification now args notifications =
     (if toString (recipient args) = toString (sender args) then (None, notifications)
      else
        (case (castId (recipient args), castId (sender args),
               castRef (post args), castRef (job args)) of
           (Some r, Some s, Some p, Some j) \<Rightarrow>
             (let n = \<lparr> n_recipient = r, n_sender = s, n_type = type args,
                         n_post = p, n_job = j, n_message = message_text args,
                         n_read = False, n_createdAt = now \<rparr>
              in (Some n, notifications @ [n]))
         | _ \<Rightarrow> (None, notifications)))"

section \<open>Sending a message (routes/messages.js, POST /send)\<close>

record message_doc =
  m_conversationId :: string
  m_sender :: string
  m_receiver :: string
  m_content :: js_string
  m_read :: bool

text \<open>The request body: \<open>receiverId\<close>, a string when present, and \<open>content\<close>.\<close>

record send_body =
  receiverId :: "string option"
  content :: js_value

text \<open>\<open>users\<close> holds the identifiers of the stored user documents.\<close>

record message_store =
  users :: "string list"
  messages :: "message_doc list"

text \<open>
  \<open>userId\<close> is \<open>req.userId\<close>, the identifier of the authenticated user as a string.
  The handler tests the body (\<open>content.trim()\<close> throws a \<open>TypeError\<close> for a truthy value
  that is not a string, which the \<open>catch\<close> block answers with 500), looks the receiver
  up with \<open>User.findById\<close>, which casts \<open>receiverId\<close> (a \<open>CastError\<close> is answered with
  500), compares \<open>receiverId === req.userId\<close> as strings, and saves the message, whose
  \<open>sender\<close> and \<open>receiver\<close> the schema casts. The conversation key is computed from the
  two strings as they came.
\<close>

definition sendMessage ::
  "string \<Rightarrow> send_body \<Rightarrow> message_store \<Rightarrow> (http_error + message_doc) \<times> message_store"
where
  "sendMessage userId body db =
     (if \<not> truthy (receiverId body) \<or> \<not> truthyValue (content body)
      then (Inl (HttpError 400 ''Receiver and message content are required''), db)
      else
        (case content body of
           Undefined \<Rightarrow> (Inl (HttpError 400 ''Receiver and message content are required''), db)
         | NonString b \<Rightarrow> (Inl (HttpError 500 ''Server error''), db)
         | JString c \<Rightarrow>
             if trim c = []
             then (Inl (HttpError 400 ''Receiver and message content are required''), db)
             else
               (case castObjectId (the (receiverId body)) of
                  None \<Rightarrow> (Inl (HttpError 500 ''Server error''), db)
                | Some receiverOid \<Rightarrow>
                    if receiverOid \<notin> set (users db)
                    then (Inl (HttpError 404 ''Receiver not found''), db)
                    else if the (receiverId body) = userId
                    then (Inl (HttpError 400 ''Cannot send message to yourself''), db)
                    else
                      (case castObjectId userId of
                         None \<Rightarrow> (Inl (HttpError 500 ''Server error''), db)
                       | Some senderOid \<Rightarrow>
                           (let m = \<lparr> m_conversationId =
                                         generateConversationId userId (the (receiverId body)),
                                       m_sender = senderOid, m_receiver = receiverOid,
                                       m_content = trim c, m_read = False \<rparr>
                            in (Inr m, db\<lparr>messages := messages db @ [m]\<rparr>))))))"

section \<open>Liking a post (routes/posts.js, POST /:postId/like)\<close>

record post_doc =
  p_content :: string
  p_author :: string
  p_likes :: "string list"
  p_visibility :: string
  p_createdAt :: nat

text \<open>Posts are stored under their identifier; \<open>findPost\<close> is \<open>Post.findById\<close>.\<close>

record post_store =
  posts :: "(string \<times> post_doc) list"
  notifications :: "notification list"

definition findPost :: "string \<Rightarrow> (string \<times> post_doc) list \<Rightarrow> post_doc option" where
  "findPost postId ps = map_of ps postId"

definition savePost :: "string \<Rightarrow> post_doc \<Rightarrow> (string \<times> post_doc) list \<Rightarrow> (string \<times> post_doc) list"
where
  "savePost postId p ps = map (\<lambda>(k, q). if k = postId then (k, p) else (k, q)) ps"

text \<open>\<open>Array.prototype.indexOf\<close>: the first index of the element, or \<open>-1\<close>.\<close>

fun indexOf :: "'a list \<Rightarrow> 'a \<Rightarrow> int" where
  "indexOf [] x = - 1"
| "indexOf (y # ys) x =
     (if y = x then 0 else (let i = indexOf ys x in if i > - 1 then i + 1 else - 1))"

text \<open>\<open>xs.splice(i, 1)\<close> for an index inside the array.\<close>

definition splice1 :: "'a list \<Rightarrow> int \<Rightarrow> 'a list" where
  "splice1 xs i = take (nat i) xs @ drop (nat i + 1) xs"

text \<open>
  The success response: the \<open>message\<close> string and \<open>likesCount\<close>. The notification is
  requested for the author of the stored post, by the authenticated user, about the
  stored post's own identifier.
\<close>

definition likePost ::
  "nat \<Rightarrow> string \<Rightarrow> string \<Rightarrow> post_store \<Rightarrow> (http_error + string \<times> nat) \<times> post_store"
where
  "likePost now userId postId db =
     (case findPost postId (posts db) of
        None \<Rightarrow> (Inl (HttpError 404 ''Post not found''), db)
      | Some p \<Rightarrow>
          (let likeIndex = indexOf (p_likes p) userId in
           if likeIndex > - 1
           then
             (let p' = p\<lparr>p_likes := splice1 (p_likes p) likeIndex\<rparr>
              in (Inr (''Post unliked'', length (p_likes p')),
                  db\<lparr>posts := savePost postId p' (posts db)\<rparr>))
           else
             (let p' = p\<lparr>p_likes := p_likes p @ [userId]\<rparr>;
                  created = createNotification now
                              \<lparr> recipient = Oid (p_author p), sender = Oid userId,
                                type = post_like, post = Some (Oid postId), job = None,
                                message_text = None \<rparr>
                              (notifications db)
              in (Inr (''Post liked'', length (p_likes p')),
                  db\<lparr>posts := savePost postId p' (posts db), notifications := snd created\<rparr>))))"

text \<open>The likes of a stored post, for stating properties of the handler.\<close>

definition likesOf :: "post_store \<Rightarrow> string \<Rightarrow> string list option" where
  "likesOf db postId = map_option p_likes (findPost postId (posts db))"

section \<open>Payment recording (routes/payments.js, POST /verify-eth; models/Payment.js)\<close>

record payment =
  pay_user :: string
  pay_transactionHash :: string
  pay_blockchain :: string
  pay_amount :: rat
  pay_currency :: string
  pay_fromAddress :: "string option"
  pay_toAddress :: "string option"
  pay_purpose :: string
  pay_relatedJobId :: "string option"
  pay_status :: string
  pay_confirmedAt :: nat

text \<open>
  The environment read by the handler: the value of
  \<open>parseFloat(process.env.PLATFORM_FEE_ETH)\<close> (\<open>None\<close> when it is not a number) and
  \<open>process.env.ADMIN_WALLET_ETH\<close>.
\<close>

record environment =
  PLATFORM_FEE_ETH :: "rat option"
  ADMIN_WALLET_ETH :: "string option"

record verify_body =
  transactionHash :: "string option"
  blockchain :: "string option"
  jobId :: "string option"
  fromAddress :: "string option"

record payment_store =
  payments :: "payment list"
  jobs :: "(string \<times> job) list"

text \<open>\<open>Payment.findOne({ transactionHash })\<close>.\<close>

definition findPayment :: "string \<Rightarrow> payment list \<Rightarrow> payment option" where
  "findPayment h ps = find (\<lambda>p. pay_transactionHash p = h) ps"

text \<open>
  The document keeps a reference in its cast form where the cast succeeds and as it
  was given where it fails; in the second case validation rejects the document.
\<close>

definition castOrKeep :: "string \<Rightarrow> string" where
  "castOrKeep s = (case castObjectId s of None \<Rightarrow> s | Some c \<Rightarrow> c)"

text \<open>
  \<open>payment.save()\<close> validates the document against the schema before it is inserted:
  \<open>user\<close> and \<open>relatedJobId\<close> have to be ObjectIds, \<open>blockchain\<close> has to be in the
  \<open>enum\<close>, the required strings have to be present and not empty, and the unique index
  on \<open>transactionHash\<close> rejects a second document with the same hash. A rejected
  document makes \<open>save\<close> throw.
\<close>

definition validPayment :: "payment \<Rightarrow> bool" where
  "validPayment p =
     (castObjectId (pay_user p) \<noteq> None
      \<and> (case pay_relatedJobId p of None \<Rightarrow> True | Some jid \<Rightarrow> castObjectId jid \<noteq> None)
      \<and> pay_blockchain p \<in> set [''ethereum'', ''polygon'', ''solana'']
      \<and> pay_transactionHash p \<noteq> [] \<and> pay_currency p \<noteq> []
      \<and> truthy (pay_fromAddress p) \<and> truthy (pay_toAddress p)
      \<and> pay_purpose p \<in> set [''job_posting'', ''premium_subscription'', ''job_boost'',
                                ''featured_listing'']
      \<and> pay_status p \<in> set [''pending'', ''confirmed'', ''failed''])"

definition savePayment :: "payment \<Rightarrow> payment list \<Rightarrow> payment list option" where
  "savePayment p ps =
     (if validPayment p \<and> findPayment (pay_transactionHash p) ps = None
      then Some (ps @ [p]) else None)"

text \<open>\<open>Job.findByIdAndUpdate(jobId, {paymentVerified: true, transactionHash, blockchain})\<close>.\<close>

definition markJobPaid :: "string \<Rightarrow> string \<Rightarrow> string \<Rightarrow> (string \<times> job) list \<Rightarrow> (string \<times> job) list"
where
  "markJobPaid jid h chain js =
     map (\<lambda>(k, j). if k = jid
                    then (k, j\<lparr>paymentVerified := True, job_transactionHash := h,
                               job_blockchain := chain\<rparr>)
                    else (k, j)) js"

definition verifyEth ::
  "environment \<Rightarrow> nat \<Rightarrow> string \<Rightarrow> verify_body \<Rightarrow> payment_store
     \<Rightarrow> (http_error + payment) \<times> payment_store"
where
  "verifyEth env now userId body db =
     (if \<not> truthy (transactionHash body) \<or> \<not> truthy (blockchain body)
      then (Inl (HttpError 400 ''Transaction hash and blockchain are required''), db)
      else if findPayment (the (transactionHash body)) (payments db) \<noteq> None
      then (Inl (HttpError 400 ''Payment already recorded''), db)
      else
        (let p = \<lparr> pay_user = castOrKeep userId,
                    pay_transactionHash = the (transactionHash body),
                    pay_blockchain = the (blockchain body),
                    pay_amount = (case PLATFORM_FEE_ETH env of
                                    None \<Rightarrow> 1 / 100000
                                  | Some fee \<Rightarrow> if fee = 0 then 1 / 100000 else fee),
                    pay_currency = (if the (blockchain body) = ''ethereum'' then ''ETH''
                                    else ''MATIC''),
                    pay_fromAddress = fromAddress body,
                    pay_toAddress = ADMIN_WALLET_ETH env,
                    pay_purpose = ''job_posting'',
                    pay_relatedJobId = map_option castOrKeep (jobId body),
                    pay_status = ''confirmed'',
                    pay_confirmedAt = now \<rparr>
         in case savePayment p (payments db) of
              None \<Rightarrow> (Inl (HttpError 500 ''Failed to verify payment''), db)
            | Some ps \<Rightarrow>
                (Inr p,
                 db\<lparr>payments := ps,
                    jobs := (if truthy (jobId body)
                             then markJobPaid (castOrKeep (the (jobId body)))
                                    (the (transactionHash body)) (the (blockchain body))
                                    (jobs db)
                             else jobs db)\<rparr>)))"

text \<open>The number of ledger entries recorded under a transaction hash.\<close>

definition ledgerEntries :: "string \<Rightarrow> payment_store \<Rightarrow> nat" where
  "ledgerEntries h db = length (filter (\<lambda>p. pay_transactionHash p = h) (payments db))"

section \<open>AI-delegated extraction and matching (routes/ai.js)\<close>

text \<open>
  \<open>callOpenRouterAPI\<close> either throws \<open>Error('AI service error')\<close> or returns the text of
  the completion. What the provider answers is an input of the handlers.
\<close>

datatype ai_result = AiError | AiText js_string

text \<open>
  \<open>JSON.parse\<close> is a parameter of the handlers: \<open>None\<close> stands for the
  \<open>SyntaxError\<close> it throws, and \<open>'j\<close> is the type of the values it returns.
\<close>

definition isQuoteOrBracket :: "nat \<Rightarrow> bool" where
  "isQuoteOrBracket c = (c = of_char (CHR 0x22) \<or> c = of_char (CHR ''['') \<or> c = of_char (CHR '']''))"

definition isCommaOrNewline :: "nat \<Rightarrow> bool" where
  "isCommaOrNewline c = (c = of_char (CHR '','') \<or> c = of_char (CHR 0x0A))"

text \<open>The expression that both the \<open>else\<close> branch and the \<open>catch\<close> block evaluate.\<close>

definition splitSkills :: "js_string \<Rightarrow> js_string list" where
  "splitSkills aiResponse =
     filter (\<lambda>s. length s > 0)
       (map trim (split isCommaOrNewline (filter (\<lambda>c. \<not> isQuoteOrBracket c) aiResponse)))"

text \<open>The skills of the response are the parsed array or the strings of the split.\<close>

datatype 'j skills = ParsedSkills "'j list" | SplitSkills "js_string list"

definition extractSkills ::
  "(js_string \<Rightarrow> 'j list option) \<Rightarrow> js_value \<Rightarrow> ai_result \<Rightarrow> http_error + 'j skills"
where
  "extractSkills JSON_parse text ai =
     (if \<not> truthyValue text then Inl (HttpError 400 ''Text is required'')
      else case ai of
        AiError \<Rightarrow> Inl (HttpError 500 ''Failed to extract skills'')
      | AiText aiResponse \<Rightarrow>
          (case matchSpan (of_char (CHR ''['')) (of_char (CHR '']'')) aiResponse of
             Some jsonMatch \<Rightarrow>
               (case JSON_parse jsonMatch of
                  Some parsed \<Rightarrow> Inr (ParsedSkills (take 20 parsed))
                | None \<Rightarrow> Inr (SplitSkills (take 20 (splitSkills aiResponse))))
           | None \<Rightarrow> Inr (SplitSkills (take 20 (splitSkills aiResponse)))))"

text \<open>
  The profile built from the user document: an empty biography or location is replaced
  by a placeholder (\<open>user.bio || 'No bio provided'\<close>).
\<close>

definition buildProfile :: "user_profile \<Rightarrow> user_profile" where
  "buildProfile user =
     \<lparr> bio = (if bio user = [] then str ''No bio provided'' else bio user),
       skills = skills user,
       location = (if location user = [] then str ''Not specified'' else location user),
       education = education user \<rparr>"

text \<open>
  \<open>matchData\<close> in the response: the object parsed from the completion, the initial
  empty object \<open>{}\<close>, or the object built by the fallback.
\<close>

datatype 'j match_result = ParsedMatch 'j | EmptyMatch | FallbackMatch match_data

text \<open>
  The handler, with the results of \<open>User.findById\<close> and \<open>Job.findById\<close> and the
  experience total as inputs. The call to the provider sits outside the inner
  \<open>try\<close>, so its exception reaches the handler's own \<open>catch\<close>; the fallback is
  computed in the \<open>catch\<close> of the inner \<open>try\<close>, which only \<open>JSON.parse\<close> can enter.
\<close>

definition jobMatch ::
  "(js_string \<Rightarrow> js_string) \<Rightarrow> (js_string \<Rightarrow> 'j option) \<Rightarrow> string option
     \<Rightarrow> user_profile option \<Rightarrow> job option \<Rightarrow> rat \<Rightarrow> ai_result \<Rightarrow> http_error + 'j match_result"
where
  "jobMatch toLowerCase JSON_parse jobIdParam user jobDoc totalYearsExperience ai =
     (if \<not> truthy jobIdParam then Inl (HttpError 400 ''Job ID is required'')
      else case jobDoc of
        None \<Rightarrow> Inl (HttpError 404 ''Job not found'')
      | Some j \<Rightarrow>
          (case user of
             None \<Rightarrow> Inl (HttpError 404 ''User not found'')
           | Some u \<Rightarrow>
               (case ai of
                  AiError \<Rightarrow> Inl (HttpError 500 ''Failed to analyze job match'')
                | AiText aiResponse \<Rightarrow>
                    (case matchSpan (of_char (CHR ''{'')) (of_char (CHR ''}'')) aiResponse of
                       None \<Rightarrow> Inr EmptyMatch
                     | Some jsonMatch \<Rightarrow>
                         (case JSON_parse jsonMatch of
                            Some parsed \<Rightarrow> Inr (ParsedMatch parsed)
                          | None \<Rightarrow>
                              Inr (FallbackMatch
                                     (fallbackMatch toLowerCase (buildProfile u) j
                                        totalYearsExperience)))))))"

section \<open>Paginated lists (routes/posts.js, GET /feed; routes/jobs.js, GET /)\<close>

text \<open>
  \<open>page\<close> and \<open>limit\<close> below are the integers \<open>parseInt(page)\<close> and
  \<open>parseInt(limit)\<close>, after the defaults 1 and 20 for an absent query parameter; the
  handlers do not validate them. \<open>cursor\<close> is the store's
  \<open>find(..).skip(skip).limit(limit)\<close> on the matching documents in sorted order: a
  negative \<open>skip\<close> is rejected by the store and the handler answers 500, a \<open>limit\<close> of
  zero means no limit, and a negative \<open>limit\<close> is taken by its absolute value.
\<close>

definition cursor :: "int \<Rightarrow> int \<Rightarrow> 'a list \<Rightarrow> 'a list option" where
  "cursor skip limit xs =
     (if skip < 0 then None
      else if limit = 0 then Some (drop (nat skip) xs)
      else Some (take (nat \<bar>limit\<bar>) (drop (nat skip) xs)))"

text \<open>
  \<open>Math.ceil(total / limit)\<close>, the quotient of the doubles being modelled as the exact
  rational: for \<open>limit = 0\<close> the quotient is \<open>Infinity\<close> or \<open>NaN\<close>, which is not an
  integer (and is serialised as \<open>null\<close>).
\<close>

definition pageCount :: "nat \<Rightarrow> int \<Rightarrow> int option" where
  "pageCount totalCount limit = (if limit = 0 then None else Some \<lceil>rat_of_nat totalCount / rat_of_int limit\<rceil>)"

record pagination =
  pg_page :: int
  pg_limit :: int
  pg_total :: nat
  pg_pages :: "int option"

text \<open>The feed lists the public posts, newest first.\<close>

definition getFeed ::
  "int \<Rightarrow> int \<Rightarrow> post_doc list \<Rightarrow> http_error + post_doc list \<times> pagination"
where
  "getFeed page limit allPosts =
     (let skip = (page - 1) * limit;
          matching = rev (sort_key p_createdAt
                            (filter (\<lambda>p. p_visibility p = ''public'') allPosts))
      in case cursor skip limit matching of
           None \<Rightarrow> Inl (HttpError 500 ''Server error'')
         | Some items \<Rightarrow>
             Inr (items, \<lparr> pg_page = page, pg_limit = limit, pg_total = length matching,
                           pg_pages = pageCount (length matching) limit \<rparr>))"

text \<open>
  The job list: \<open>filters\<close> is the conjunction of the optional query filters and
  \<open>sortKey\<close> the key of the order requested by \<open>sort\<close>; the status filter is fixed.
\<close>

definition getJobs ::
  "(job \<Rightarrow> bool) \<Rightarrow> (job \<Rightarrow> int) \<Rightarrow> int \<Rightarrow> int \<Rightarrow> job list
     \<Rightarrow> http_error + job list \<times> pagination"
where
  "getJobs filters sortKey page limit allJobs =
     (let skip = (page - 1) * limit;
          matching = sort_key sortKey
                       (filter (\<lambda>j. job_status j = ''active'' \<and> filters j) allJobs)
      in case cursor skip limit matching of
           None \<Rightarrow> Inl (HttpError 500 ''Server error'')
         | Some items \<Rightarrow>
             Inr (items, \<lparr> pg_page = page, pg_limit = limit, pg_total = length matching,
                           pg_pages = pageCount (length matching) limit \<rparr>))"

section \<open>Example documents\<close>

text \<open>The lower-casing of ASCII strings, with which the examples instantiate
  \<open>toLowerCase\<close>.\<close>

definition asciiLowerCase :: "js_string \<Rightarrow> js_string" where
  "asciiLowerCase s = map (\<lambda>c. if 65 \<le> c \<and> c \<le> 90 then c + 32 else c) s"

definition exampleUser :: user_profile where
  "exampleUser =
     \<lparr> bio = [], skills = [str ''Python'', str ''React''], location = str ''Chennai'',
       education = [] \<rparr>"

definition exampleJob :: job where
  "exampleJob =
     \<lparr> title = str ''Developer'', company = str ''Acme'', job_location = str ''Berlin'',
       description = str ''Build things'', job_skills = [str ''python'', str ''Vue''],
       experienceLevel = ''mid'', jobType = ''full-time'', workMode = ''remote'',
       paymentVerified = False, job_transactionHash = [], job_blockchain = [],
       job_status = ''active'' \<rparr>"

text \<open>
  A candidate holding the first \<open>m\<close> of nine skills, with or without an education
  entry, and a remote job of level \<open>mid\<close> asking for the first \<open>n\<close> of them.
\<close>

definition skillNames :: "js_string list" where
  "skillNames = map str [''Go'', ''SQL'', ''Rust'', ''Java'', ''Perl'', ''Ruby'', ''Bash'',
                         ''Lisp'', ''Dart'']"

definition candidate :: "nat \<Rightarrow> bool \<Rightarrow> user_profile" where
  "candidate m educated =
     \<lparr> bio = str ''Engineer'', skills = take m skillNames, location = str ''Pune'',
       education = (if educated
                    then [\<lparr> degree = str ''BSc'', institution = str ''IIT'' \<rparr>] else []) \<rparr>"

definition posting :: "nat \<Rightarrow> job" where
  "posting n = exampleJob\<lparr>job_skills := take n skillNames\<rparr>"

definition examplePost :: "string list \<Rightarrow> post_doc" where
  "examplePost likes =
     \<lparr> p_content = ''hello'', p_author = ''u9'', p_likes = likes, p_visibility = ''public'',
       p_createdAt = 0 \<rparr>"

definition exampleStore :: post_store where
  "exampleStore = \<lparr> posts = [(''p1'', examplePost [''u1'', ''u2''])], notifications = [] \<rparr>"

definition exampleEnv :: environment where
  "exampleEnv = \<lparr> PLATFORM_FEE_ETH = None, ADMIN_WALLET_ETH = Some ''0xadmin'' \<rparr>"

definition exampleBody :: verify_body where
  "exampleBody =
     \<lparr> transactionHash = Some ''0xabc'', blockchain = Some ''ethereum'', jobId = None,
       fromAddress = Some ''0xfrom'' \<rparr>"

definition examplePayment :: payment where
  "examplePayment =
     \<lparr> pay_user = ''64b7f0c2a1d3e4f5a6b7c8d9'', pay_transactionHash = ''0xabc'',
       pay_blockchain = ''ethereum'', pay_amount = 1 / 100000, pay_currency = ''ETH'',
       pay_fromAddress = Some ''0xfrom'', pay_toAddress = Some ''0xadmin'',
       pay_purpose = ''job_posting'', pay_relatedJobId = None, pay_status = ''confirmed'',
       pay_confirmedAt = 7 \<rparr>"

section \<open>Correctness\<close>

subsection \<open>Conversation identity\<close>

lemma underscore_split_unique:
  assumes "CHR ''_'' \<notin> set x" and "CHR ''_'' \<notin> set x'"
    and "x @ CHR ''_'' # y = x' @ CHR ''_'' # y'"
  shows "x = x' \<and> y = y'"
  using assms
proof (induction x arbitrary: x')
  case Nil
  then show ?case by (cases x') auto
next
  case (Cons c cs)
  then show ?case by (cases x') auto
qed

lemma isObjectId_no_underscore: "isObjectId s \<Longrightarrow> CHR ''_'' \<notin> set s"
  by (auto simp: isObjectId_def isHexDigit_def list_all_iff)

lemma conversationId_shape:
  "\<exists>x y. generateConversationId a b = x @ CHR ''_'' # y \<and> {x, y} = {a, b}"
proof (cases "a \<le> b")
  case True
  then have "generateConversationId a b = a @ CHR ''_'' # b"
    by (simp add: generateConversationId_def)
  then show ?thesis by blast
next
  case False
  then have "generateConversationId a b = b @ CHR ''_'' # a"
    by (simp add: generateConversationId_def)
  then show ?thesis by blast
qed

lemma conversationId_inj:
  assumes "CHR ''_'' \<notin> set a" "CHR ''_'' \<notin> set b" "CHR ''_'' \<notin> set c" "CHR ''_'' \<notin> set d"
    and eq: "generateConversationId a b = generateConversationId c d"
  shows "{a, b} = {c, d}"
proof -
  obtain x y where xy: "generateConversationId a b = x @ CHR ''_'' # y" "{x, y} = {a, b}"
    using conversationId_shape by blast
  obtain x' y' where xy': "generateConversationId c d = x' @ CHR ''_'' # y'" "{x', y'} = {c, d}"
    using conversationId_shape by blast
  have "x \<in> {a, b}" "x' \<in> {c, d}" using xy(2) xy'(2) by auto
  then have "CHR ''_'' \<notin> set x" "CHR ''_'' \<notin> set x'" using assms(1-4) by auto
  moreover have "x @ CHR ''_'' # y = x' @ CHR ''_'' # y'" using eq xy(1) xy'(1) by simp
  ultimately have "x = x' \<and> y = y'" by (rule underscore_split_unique)
  then show ?thesis using xy(2) xy'(2) by simp
qed

lemma conversationId_comm: "generateConversationId a b = generateConversationId b a"
proof (cases "a = b")
  case True
  then show ?thesis by simp
next
  case False
  then show ?thesis
    by (cases "a \<le> b") (auto simp: generateConversationId_def)
qed

text \<open>
  C1. For user identifiers \<open>a\<close>, \<open>b\<close>, \<open>c\<close> (ObjectId strings), the conversation key does
  not depend on the order of its arguments, and the keys of the pairs \<open>{a, b}\<close> and
  \<open>{a, c}\<close> differ whenever \<open>b\<close> and \<open>c\<close> differ.
\<close>

theorem conversationId_symmetric_injective:
  "isObjectId a \<Longrightarrow> isObjectId b \<Longrightarrow> isObjectId c \<Longrightarrow>
     generateConversationId a b = generateConversationId b a \<and>
     (b \<noteq> c \<longrightarrow> generateConversationId a b \<noteq> generateConversationId a c)"
proof (intro conjI impI)
  show "generateConversationId a b = generateConversationId b a"
    by (rule conversationId_comm)
next
  assume ids: "isObjectId a" "isObjectId b" "isObjectId c" and ne: "b \<noteq> c"
  show "generateConversationId a b \<noteq> generateConversationId a c"
  proof
    assume "generateConversationId a b = generateConversationId a c"
    then have "{a, b} = {a, c}"
      using ids isObjectId_no_underscore conversationId_inj by blast
    with ne show False by (auto simp: doubleton_eq_iff)
  qed
qed

theorem conversationId_symmetric_injective_witness:
  "isObjectId ''64b7f0c2a1d3e4f5a6b7c8d9'' \<and> isObjectId ''64b7f0c2a1d3e4f5a6b7c8da''
   \<and> isObjectId ''64b7f0c2a1d3e4f5a6b7c8db''
   \<and> generateConversationId ''64b7f0c2a1d3e4f5a6b7c8d9'' ''64b7f0c2a1d3e4f5a6b7c8da''
       = generateConversationId ''64b7f0c2a1d3e4f5a6b7c8da'' ''64b7f0c2a1d3e4f5a6b7c8d9''
   \<and> generateConversationId ''64b7f0c2a1d3e4f5a6b7c8d9'' ''64b7f0c2a1d3e4f5a6b7c8da''
       \<noteq> generateConversationId ''64b7f0c2a1d3e4f5a6b7c8d9'' ''64b7f0c2a1d3e4f5a6b7c8db''"
proof -
  have a: "isObjectId ''64b7f0c2a1d3e4f5a6b7c8d9''"
    by (simp add: isObjectId_def isHexDigit_def)
  have b: "isObjectId ''64b7f0c2a1d3e4f5a6b7c8da''"
    by (simp add: isObjectId_def isHexDigit_def)
  have c: "isObjectId ''64b7f0c2a1d3e4f5a6b7c8db''"
    by (simp add: isObjectId_def isHexDigit_def)
  have ne: "''64b7f0c2a1d3e4f5a6b7c8da'' \<noteq> ''64b7f0c2a1d3e4f5a6b7c8db''"
    by simp
  show ?thesis
    using a b c ne conversationId_symmetric_injective [OF a b c] by blast
qed

subsection \<open>Fallback match score\<close>

lemma startsWith_iff: "startsWith s sub \<longleftrightarrow> (\<exists>post. s = sub @ post)"
proof
  assume "startsWith s sub"
  then have "s = sub @ drop (length sub) s"
    by (metis append_take_drop_id startsWith_def)
  then show "\<exists>post. s = sub @ post" ..
next
  assume "\<exists>post. s = sub @ post"
  then show "startsWith s sub" by (auto simp: startsWith_def)
qed

lemma includesStr_iff: "includesStr s sub \<longleftrightarrow> (\<exists>pre post. s = pre @ sub @ post)"
proof (induction s)
  case Nil
  then show ?case by simp
next
  case (Cons c cs)
  show ?case
  proof
    assume "includesStr (c # cs) sub"
    then consider "startsWith (c # cs) sub" | "includesStr cs sub" by auto
    then show "\<exists>pre post. c # cs = pre @ sub @ post"
    proof cases
      case 1
      then obtain post where "c # cs = sub @ post" by (auto simp: startsWith_iff)
      then have "c # cs = [] @ sub @ post" by simp
      then show ?thesis by blast
    next
      case 2
      then obtain pre post where "cs = pre @ sub @ post" using Cons.IH by blast
      then have "c # cs = (c # pre) @ sub @ post" by simp
      then show ?thesis by blast
    qed
  next
    assume "\<exists>pre post. c # cs = pre @ sub @ post"
    then obtain pre post where eq: "c # cs = pre @ sub @ post" by blast
    show "includesStr (c # cs) sub"
    proof (cases pre)
      case Nil
      then have "startsWith (c # cs) sub" using eq by (auto simp: startsWith_iff)
      then show ?thesis by simp
    next
      case (Cons d ds)
      then have "cs = ds @ sub @ post" using eq by simp
      then have "includesStr cs sub" using Cons.IH by blast
      then show ?thesis by simp
    qed
  qed
qed

lemma includesStr_refl: "includesStr s s"
proof -
  have "s = [] @ s @ []" by simp
  then show ?thesis unfolding includesStr_iff by blast
qed

lemma skillMatches_rule:
  "skillMatches toLowerCase userProfile jobDoc
     = filter (\<lambda>skill. \<exists>jobSkill\<in>set (job_skills jobDoc).
                 (\<exists>pre post. toLowerCase jobSkill = pre @ toLowerCase skill @ post)
               \<or> (\<exists>pre post. toLowerCase skill = pre @ toLowerCase jobSkill @ post))
         (skills userProfile)"
  by (simp add: skillMatches_def list_ex_iff includesStr_iff)

lemma skillMatches_subset:
  assumes "set (skills userProfile) \<subseteq> set (job_skills jobDoc)"
  shows "skillMatches toLowerCase userProfile jobDoc = skills userProfile"
proof -
  have "\<forall>skill\<in>set (skills userProfile).
          list_ex (\<lambda>jobSkill. includesStr (toLowerCase jobSkill) (toLowerCase skill)
                              \<or> includesStr (toLowerCase skill) (toLowerCase jobSkill))
            (job_skills jobDoc)"
    using assms includesStr_refl by (fastforce simp: list_ex_iff)
  then show ?thesis by (simp add: skillMatches_def)
qed

lemma Math_round_of_int: "Math_round (rat_of_int n) = n"
  unfolding Math_round_def by (rule floor_unique) simp_all

lemma Math_round_examples:
  "Math_round 90 = 90" "Math_round 70 = 70" "Math_round 50 = 50"
  "Math_round (200 / 7 + 60) = 89" "Math_round (200 / 7 + 40) = 69"
  "Math_round (80 / 9 + 40) = 49"
  by code_simp+

lemma str_examples:
  "includesStr (str ''python'') (str ''python'')"
  "\<not> includesStr (str ''python'') (str ''react'')"
  "\<not> includesStr (str ''react'') (str ''python'')"
  "\<not> includesStr (str ''vue'') (str ''python'')"
  "\<not> includesStr (str ''python'') (str ''vue'')"
  "\<not> includesStr (str ''vue'') (str ''react'')"
  "\<not> includesStr (str ''react'') (str ''vue'')"
  by (simp_all add: str_def startsWith_def)

lemma skillMatches_example:
  assumes "toLowerCase (str ''Python'') = str ''python''"
    and "toLowerCase (str ''React'') = str ''react''"
    and "toLowerCase (str ''python'') = str ''python''"
    and "toLowerCase (str ''Vue'') = str ''vue''"
    and "skills p = [str ''Python'', str ''React'']"
    and "job_skills j = [str ''python'', str ''Vue'']"
  shows "skillMatches toLowerCase p j = [str ''Python'']"
  using assms by (simp add: skillMatches_def str_examples)

lemma expScore_rule:
  "expScore jobDoc years
     = (if experienceLevel jobDoc = ''entry''
        then (if 0 \<le> years \<and> years \<le> 4 then 30 else if 0 \<le> years then 20 else 0)
        else if experienceLevel jobDoc = ''mid''
        then (if 2 \<le> years \<and> years \<le> 7 then 30 else if 2 \<le> years then 20 else 0)
        else if experienceLevel jobDoc = ''senior''
        then (if 5 \<le> years \<and> years \<le> 12 then 30 else if 5 \<le> years then 20 else 0)
        else if experienceLevel jobDoc = ''lead''
        then (if 8 \<le> years \<and> years \<le> 22 then 30 else if 8 \<le> years then 20 else 0)
        else (if 0 \<le> years \<and> years \<le> 4 then 30 else if 0 \<le> years then 20 else 0))"
  by (simp add: expScore_def expLevelMap_def)

lemma locationScore_rule:
  "locationScore toLowerCase userProfile jobDoc
     = (if workMode jobDoc = ''remote''
           \<or> (location userProfile \<noteq> []
              \<and> (\<exists>pre post. toLowerCase (job_location jobDoc)
                                = pre @ toLowerCase (location userProfile) @ post))
        then 15 else 5)"
  by (simp add: locationScore_def includesStr_iff)

lemma educationScore_rule:
  "educationScore userProfile = (if education userProfile = [] then 5 else 15)"
  by (simp add: educationScore_def)

text \<open>
  C4. The fallback score is the sum, rounded to the nearest integer, of the skill,
  experience, location and education scores. The skill score is the number of matched
  candidate skills over \<open>max(jobSkillCount, 1)\<close>, times 40, a candidate skill being
  matched when, both in lower case, some job skill contains it or it contains some job
  skill. The experience score is 30 when the years lie between the minimum of the job's
  level and its maximum plus 2, 20 when they lie above, and 0 below; the location score
  is 15 for a remote job or a job location that contains the candidate's, and 5
  otherwise; the education score is 15 with an education entry and 5 without. For candidate skills \<open>["Python", "React"]\<close>, job skills \<open>["python", "Vue"]\<close>,
  level \<open>mid\<close>, three years of experience, a remote job and no education entry, only
  \<open>Python\<close> matches and the scores are 20, 30, 15 and 5: the total is 70 and the
  category \<open>Strong Match\<close>, whatever the other fields of the user and of the job are.
\<close>

theorem fallback_score_rule:
  "(let matched = filter (\<lambda>skill. \<exists>jobSkill\<in>set (job_skills jobDoc).
                      (\<exists>pre post. toLowerCase jobSkill = pre @ toLowerCase skill @ post)
                    \<or> (\<exists>pre post. toLowerCase skill = pre @ toLowerCase jobSkill @ post))
                    (skills userProfile)
    in skillMatches toLowerCase userProfile jobDoc = matched
       \<and> skillScore toLowerCase userProfile jobDoc
           = rat_of_nat (length matched) / rat_of_nat (max (length (job_skills jobDoc)) 1) * 40
       \<and> expScore jobDoc years
           = (if experienceLevel jobDoc = ''entry''
              then (if 0 \<le> years \<and> years \<le> 4 then 30 else if 0 \<le> years then 20 else 0)
              else if experienceLevel jobDoc = ''mid''
              then (if 2 \<le> years \<and> years \<le> 7 then 30 else if 2 \<le> years then 20 else 0)
              else if experienceLevel jobDoc = ''senior''
              then (if 5 \<le> years \<and> years \<le> 12 then 30 else if 5 \<le> years then 20 else 0)
              else if experienceLevel jobDoc = ''lead''
              then (if 8 \<le> years \<and> years \<le> 22 then 30 else if 8 \<le> years then 20 else 0)
              else (if 0 \<le> years \<and> years \<le> 4 then 30 else if 0 \<le> years then 20 else 0))
       \<and> locationScore toLowerCase userProfile jobDoc
           = (if workMode jobDoc = ''remote''
                 \<or> (location userProfile \<noteq> []
                    \<and> (\<exists>pre post. toLowerCase (job_location jobDoc)
                                      = pre @ toLowerCase (location userProfile) @ post))
              then 15 else 5)
       \<and> educationScore userProfile = (if education userProfile = [] then 5 else 15)
       \<and> matchScore (fallbackMatch toLowerCase userProfile jobDoc years)
           = \<lfloor>rat_of_nat (length matched) / rat_of_nat (max (length (job_skills jobDoc)) 1) * 40
              + expScore jobDoc years + locationScore toLowerCase userProfile jobDoc
              + educationScore userProfile + 1 / 2\<rfloor>)
   \<and> (toLowerCase (str ''Python'') = str ''python''
        \<and> toLowerCase (str ''React'') = str ''react''
        \<and> toLowerCase (str ''python'') = str ''python''
        \<and> toLowerCase (str ''Vue'') = str ''vue'' \<longrightarrow>
       (let p = buildProfile (user\<lparr>skills := [str ''Python'', str ''React''], education := []\<rparr>);
            j = jobDoc\<lparr>job_skills := [str ''python'', str ''Vue''], experienceLevel := ''mid'',
                       workMode := ''remote''\<rparr>
        in skillMatches toLowerCase p j = [str ''Python'']
           \<and> skillScore toLowerCase p j = 20 \<and> expScore j 3 = 30
           \<and> locationScore toLowerCase p j = 15 \<and> educationScore p = 5
           \<and> matchScore (fallbackMatch toLowerCase p j 3) = 70
           \<and> matchCategory (fallbackMatch toLowerCase p j 3) = ''Strong Match''))"
proof (intro conjI impI)
  show "let matched = filter (\<lambda>skill. \<exists>jobSkill\<in>set (job_skills jobDoc).
                      (\<exists>pre post. toLowerCase jobSkill = pre @ toLowerCase skill @ post)
                    \<or> (\<exists>pre post. toLowerCase skill = pre @ toLowerCase jobSkill @ post))
                    (skills userProfile)
    in skillMatches toLowerCase userProfile jobDoc = matched
       \<and> skillScore toLowerCase userProfile jobDoc
           = rat_of_nat (length matched) / rat_of_nat (max (length (job_skills jobDoc)) 1) * 40
       \<and> expScore jobDoc years
           = (if experienceLevel jobDoc = ''entry''
              then (if 0 \<le> years \<and> years \<le> 4 then 30 else if 0 \<le> years then 20 else 0)
              else if experienceLevel jobDoc = ''mid''
              then (if 2 \<le> years \<and> years \<le> 7 then 30 else if 2 \<le> years then 20 else 0)
              else if experienceLevel jobDoc = ''senior''
              then (if 5 \<le> years \<and> years \<le> 12 then 30 else if 5 \<le> years then 20 else 0)
              else if experienceLevel jobDoc = ''lead''
              then (if 8 \<le> years \<and> years \<le> 22 then 30 else if 8 \<le> years then 20 else 0)
              else (if 0 \<le> years \<and> years \<le> 4 then 30 else if 0 \<le> years then 20 else 0))
       \<and> locationScore toLowerCase userProfile jobDoc
           = (if workMode jobDoc = ''remote''
                 \<or> (location userProfile \<noteq> []
                    \<and> (\<exists>pre post. toLowerCase (job_location jobDoc)
                                      = pre @ toLowerCase (location userProfile) @ post))
              then 15 else 5)
       \<and> educationScore userProfile = (if education userProfile = [] then 5 else 15)
       \<and> matchScore (fallbackMatch toLowerCase userProfile jobDoc years)
           = \<lfloor>rat_of_nat (length matched) / rat_of_nat (max (length (job_skills jobDoc)) 1) * 40
              + expScore jobDoc years + locationScore toLowerCase userProfile jobDoc
              + educationScore userProfile + 1 / 2\<rfloor>"
    unfolding Let_def skillMatches_rule [symmetric]
    using expScore_rule [of jobDoc years] locationScore_rule [of toLowerCase userProfile jobDoc]
      educationScore_rule [of userProfile]
    by (simp add: skillScore_def fallbackMatch_def Let_def Math_round_def)
next
  assume low: "toLowerCase (str ''Python'') = str ''python''
        \<and> toLowerCase (str ''React'') = str ''react''
        \<and> toLowerCase (str ''python'') = str ''python''
        \<and> toLowerCase (str ''Vue'') = str ''vue''"
  define p where "p = buildProfile (user\<lparr>skills := [str ''Python'', str ''React''], education := []\<rparr>)"
  define j where "j = jobDoc\<lparr>job_skills := [str ''python'', str ''Vue''], experienceLevel := ''mid'',
                  workMode := ''remote''\<rparr>"
  have m: "skillMatches toLowerCase p j = [str ''Python'']"
    using low by (intro skillMatches_example) (simp_all add: p_def j_def buildProfile_def)
  have s: "skillScore toLowerCase p j = 20"
    by (simp add: skillScore_def m) (simp add: j_def)
  have e: "expScore j 3 = 30"
    by (simp add: expScore_def expLevelMap_def j_def)
  have l: "locationScore toLowerCase p j = 15"
    by (simp add: locationScore_def j_def)
  have d: "educationScore p = 5"
    by (simp add: educationScore_def p_def buildProfile_def)
  have t: "matchScore (fallbackMatch toLowerCase p j 3) = 70"
    by (simp add: fallbackMatch_def Let_def s e l d Math_round_examples)
  have c: "matchCategory (fallbackMatch toLowerCase p j 3) = ''Strong Match''"
    by (simp add: fallbackMatch_def Let_def s e l d Math_round_examples category_def)
  show "let p = buildProfile (user\<lparr>skills := [str ''Python'', str ''React''], education := []\<rparr>);
            j = jobDoc\<lparr>job_skills := [str ''python'', str ''Vue''], experienceLevel := ''mid'',
                       workMode := ''remote''\<rparr>
        in skillMatches toLowerCase p j = [str ''Python'']
           \<and> skillScore toLowerCase p j = 20 \<and> expScore j 3 = 30
           \<and> locationScore toLowerCase p j = 15 \<and> educationScore p = 5
           \<and> matchScore (fallbackMatch toLowerCase p j 3) = 70
           \<and> matchCategory (fallbackMatch toLowerCase p j 3) = ''Strong Match''"
    unfolding Let_def p_def [symmetric] j_def [symmetric]
    using m s e l d t c by simp
qed

lemma asciiLowerCase_examples:
  "asciiLowerCase (str ''Python'') = str ''python''"
  "asciiLowerCase (str ''React'') = str ''react''"
  "asciiLowerCase (str ''python'') = str ''python''"
  "asciiLowerCase (str ''Vue'') = str ''vue''"
  by (simp_all add: asciiLowerCase_def str_def)

theorem fallback_score_rule_witness:
  "asciiLowerCase (str ''Python'') = str ''python''
   \<and> asciiLowerCase (str ''React'') = str ''react''
   \<and> asciiLowerCase (str ''python'') = str ''python''
   \<and> asciiLowerCase (str ''Vue'') = str ''vue''
   \<and> skillMatches asciiLowerCase (buildProfile exampleUser) exampleJob = [str ''Python'']
   \<and> matchScore (fallbackMatch asciiLowerCase (buildProfile exampleUser) exampleJob 3) = 70
   \<and> matchCategory (fallbackMatch asciiLowerCase (buildProfile exampleUser) exampleJob 3)
       = ''Strong Match''"
proof -
  have u: "exampleUser\<lparr>skills := [str ''Python'', str ''React''], education := []\<rparr> = exampleUser"
    by (simp add: exampleUser_def)
  have j: "exampleJob\<lparr>job_skills := [str ''python'', str ''Vue''], experienceLevel := ''mid'',
                      workMode := ''remote''\<rparr> = exampleJob"
    by (simp add: exampleJob_def)
  show ?thesis
    using fallback_score_rule
            [where toLowerCase = asciiLowerCase and user = exampleUser and jobDoc = exampleJob
               and userProfile = exampleUser and years = 3]
    by (simp add: Let_def u j asciiLowerCase_examples)
qed

lemma category_iff:
  "category t = ''Gold Match'' \<longleftrightarrow> 90 \<le> t"
  "category t = ''Strong Match'' \<longleftrightarrow> 70 \<le> t \<and> t < 90"
  "category t = ''Good Match'' \<longleftrightarrow> 50 \<le> t \<and> t < 70"
  "category t = ''Partial Match'' \<longleftrightarrow> t < 50"
  by (auto simp: category_def)

lemma Math_round_bounds:
  "rat_of_int (Math_round x) - 1 / 2 \<le> x" "x < rat_of_int (Math_round x) + 1 / 2"
  unfolding Math_round_def
  using of_int_floor_le [of "x + 1 / 2"] floor_correct [of "x + 1 / 2"]
  by linarith+

lemma Math_round_fractions:
  "Math_round (620 / 7) = 89" "Math_round (480 / 7) = 69" "Math_round (440 / 9) = 49"
  by code_simp+

lemma Math_round_ge_iff: "n \<le> Math_round x \<longleftrightarrow> rat_of_int n - 1 / 2 \<le> x"
proof -
  have "n \<le> \<lfloor>x + 1 / 2\<rfloor> \<longleftrightarrow> rat_of_int n \<le> x + 1 / 2" by (rule le_floor_iff)
  then show ?thesis by (simp add: Math_round_def) linarith
qed

lemma Math_round_less_iff: "Math_round x < n \<longleftrightarrow> x < rat_of_int n - 1 / 2"
  using Math_round_ge_iff [of n x] by linarith

lemma length_skillNames: "length skillNames = 9"
  by (simp add: skillNames_def)

lemma buildProfile_candidate: "buildProfile (candidate m educated) = candidate m educated"
  by (simp add: buildProfile_def candidate_def str_def)

lemma skillScore_candidate:
  assumes "m \<le> n" and "n \<le> 9"
  shows "skillScore toLowerCase (candidate m educated) (posting n)
           = rat_of_nat m / rat_of_nat (max n 1) * 40"
proof -
  have sub: "set (skills (candidate m educated)) \<subseteq> set (job_skills (posting n))"
    using assms(1) by (simp add: candidate_def posting_def set_take_subset_set_take)
  have "skillMatches toLowerCase (candidate m educated) (posting n)
          = skills (candidate m educated)"
    using sub by (rule skillMatches_subset)
  then show ?thesis
    using assms by (simp add: skillScore_def candidate_def posting_def length_skillNames)
qed

lemma scores_candidate:
  "expScore (posting n) 3 = 30" "expScore (posting n) 10 = 20"
  "locationScore toLowerCase (candidate m educated) (posting n) = 15"
  "educationScore (candidate m True) = 15" "educationScore (candidate m False) = 5"
  by (simp_all add: expScore_def expLevelMap_def locationScore_def educationScore_def
        posting_def exampleJob_def candidate_def)

lemma fallback_candidate:
  assumes "m \<le> n" and "n \<le> 9"
    and "Math_round (rat_of_nat m / rat_of_nat (max n 1) * 40 + expScore (posting n) years + 15
                      + educationScore (candidate m educated)) = t"
  shows "matchScore (fallbackMatch toLowerCase (buildProfile (candidate m educated))
                       (posting n) years) = t
         \<and> matchCategory (fallbackMatch toLowerCase (buildProfile (candidate m educated))
                            (posting n) years) = category t"
  using assms(3)
  by (simp add: fallbackMatch_def Let_def buildProfile_candidate
        skillScore_candidate [OF assms(1,2)] scores_candidate)

text \<open>
  C5. The category of the fallback is determined from the total rounded to the nearest
  integer (a half upwards), with inclusive lower bounds: Gold Match from 90, Strong
  Match from 70, Good Match from 50, Partial Match below; in terms of the sum of the
  four scores the bounds are 89.5, 69.5 and 49.5. The boundaries are reached: candidates
  with rounded totals of exactly 90, 89, 70, 69, 50 and 49 get Gold, Strong, Strong,
  Good, Good and Partial Match.
\<close>

theorem category_thresholds:
  "(let total = skillScore toLowerCase userProfile jobDoc + expScore jobDoc years
                + locationScore toLowerCase userProfile jobDoc + educationScore userProfile;
        r = fallbackMatch toLowerCase userProfile jobDoc years
    in rat_of_int (matchScore r) - 1 / 2 \<le> total \<and> total < rat_of_int (matchScore r) + 1 / 2
       \<and> matchCategory r
           = (if 90 \<le> matchScore r then ''Gold Match''
              else if 70 \<le> matchScore r then ''Strong Match''
              else if 50 \<le> matchScore r then ''Good Match'' else ''Partial Match'')
       \<and> (matchCategory r = ''Gold Match'') = (179 / 2 \<le> total)
       \<and> (matchCategory r = ''Strong Match'') = (139 / 2 \<le> total \<and> total < 179 / 2)
       \<and> (matchCategory r = ''Good Match'') = (99 / 2 \<le> total \<and> total < 139 / 2)
       \<and> (matchCategory r = ''Partial Match'') = (total < 99 / 2))
   \<and> (let r = fallbackMatch toLowerCase (buildProfile (candidate 3 True)) (posting 4) 3
       in matchScore r = 90 \<and> matchCategory r = ''Gold Match'')
   \<and> (let r = fallbackMatch toLowerCase (buildProfile (candidate 5 True)) (posting 7) 3
       in matchScore r = 89 \<and> matchCategory r = ''Strong Match'')
   \<and> (let r = fallbackMatch toLowerCase (buildProfile (candidate 2 False)) (posting 4) 3
       in matchScore r = 70 \<and> matchCategory r = ''Strong Match'')
   \<and> (let r = fallbackMatch toLowerCase (buildProfile (candidate 5 False)) (posting 7) 10
       in matchScore r = 69 \<and> matchCategory r = ''Good Match'')
   \<and> (let r = fallbackMatch toLowerCase (buildProfile (candidate 0 False)) (posting 4) 3
       in matchScore r = 50 \<and> matchCategory r = ''Good Match'')
   \<and> (let r = fallbackMatch toLowerCase (buildProfile (candidate 2 False)) (posting 9) 10
       in matchScore r = 49 \<and> matchCategory r = ''Partial Match'')"
proof -
  define total where
    "total = skillScore toLowerCase userProfile jobDoc + expScore jobDoc years
             + locationScore toLowerCase userProfile jobDoc + educationScore userProfile"
  define r where "r = fallbackMatch toLowerCase userProfile jobDoc years"
  have score: "matchScore r = Math_round total"
    by (simp add: r_def total_def fallbackMatch_def Let_def)
  have cat: "matchCategory r = category (Math_round total)"
    by (simp add: r_def total_def fallbackMatch_def Let_def)
  have b: "rat_of_int (matchScore r) - 1 / 2 \<le> total \<and> total < rat_of_int (matchScore r) + 1 / 2"
    using Math_round_bounds [of total] by (simp add: score)
  have c: "matchCategory r
           = (if 90 \<le> matchScore r then ''Gold Match''
              else if 70 \<le> matchScore r then ''Strong Match''
              else if 50 \<le> matchScore r then ''Good Match'' else ''Partial Match'')"
    by (simp add: cat score category_def)
  have g: "(matchCategory r = ''Gold Match'') = (179 / 2 \<le> total)"
    unfolding cat category_iff Math_round_ge_iff by simp
  have s: "(matchCategory r = ''Strong Match'') = (139 / 2 \<le> total \<and> total < 179 / 2)"
    unfolding cat category_iff Math_round_ge_iff Math_round_less_iff by simp
  have d: "(matchCategory r = ''Good Match'') = (99 / 2 \<le> total \<and> total < 139 / 2)"
    unfolding cat category_iff Math_round_ge_iff Math_round_less_iff by simp
  have p: "(matchCategory r = ''Partial Match'') = (total < 99 / 2)"
    unfolding cat category_iff Math_round_less_iff by simp
  have general: "let total = skillScore toLowerCase userProfile jobDoc + expScore jobDoc years
                + locationScore toLowerCase userProfile jobDoc + educationScore userProfile;
        r = fallbackMatch toLowerCase userProfile jobDoc years
    in rat_of_int (matchScore r) - 1 / 2 \<le> total \<and> total < rat_of_int (matchScore r) + 1 / 2
       \<and> matchCategory r
           = (if 90 \<le> matchScore r then ''Gold Match''
              else if 70 \<le> matchScore r then ''Strong Match''
              else if 50 \<le> matchScore r then ''Good Match'' else ''Partial Match'')
       \<and> (matchCategory r = ''Gold Match'') = (179 / 2 \<le> total)
       \<and> (matchCategory r = ''Strong Match'') = (139 / 2 \<le> total \<and> total < 179 / 2)
       \<and> (matchCategory r = ''Good Match'') = (99 / 2 \<le> total \<and> total < 139 / 2)
       \<and> (matchCategory r = ''Partial Match'') = (total < 99 / 2)"
    unfolding Let_def total_def [symmetric] r_def [symmetric]
    using b c g s d p by blast
  have e90: "let r = fallbackMatch toLowerCase (buildProfile (candidate 3 True)) (posting 4) 3
       in matchScore r = 90 \<and> matchCategory r = ''Gold Match''"
    using fallback_candidate [of 3 4 3 True 90 toLowerCase]
    by (simp add: scores_candidate Math_round_examples Math_round_fractions category_def)
  have e89: "let r = fallbackMatch toLowerCase (buildProfile (candidate 5 True)) (posting 7) 3
       in matchScore r = 89 \<and> matchCategory r = ''Strong Match''"
    using fallback_candidate [of 5 7 3 True 89 toLowerCase]
    by (simp add: scores_candidate Math_round_examples Math_round_fractions category_def)
  have e70: "let r = fallbackMatch toLowerCase (buildProfile (candidate 2 False)) (posting 4) 3
       in matchScore r = 70 \<and> matchCategory r = ''Strong Match''"
    using fallback_candidate [of 2 4 3 False 70 toLowerCase]
    by (simp add: scores_candidate Math_round_examples Math_round_fractions category_def)
  have e69: "let r = fallbackMatch toLowerCase (buildProfile (candidate 5 False)) (posting 7) 10
       in matchScore r = 69 \<and> matchCategory r = ''Good Match''"
    using fallback_candidate [of 5 7 10 False 69 toLowerCase]
    by (simp add: scores_candidate Math_round_examples Math_round_fractions category_def)
  have e50: "let r = fallbackMatch toLowerCase (buildProfile (candidate 0 False)) (posting 4) 3
       in matchScore r = 50 \<and> matchCategory r = ''Good Match''"
    using fallback_candidate [of 0 4 3 False 50 toLowerCase]
    by (simp add: scores_candidate Math_round_examples Math_round_fractions category_def)
  have e49: "let r = fallbackMatch toLowerCase (buildProfile (candidate 2 False)) (posting 9) 10
       in matchScore r = 49 \<and> matchCategory r = ''Partial Match''"
    using fallback_candidate [of 2 9 10 False 49 toLowerCase]
    by (simp add: scores_candidate Math_round_examples Math_round_fractions category_def)
  show ?thesis
    using general e90 e89 e70 e69 e50 e49 by (intro conjI)
qed

subsection \<open>Notification fan-out\<close>

lemma castObjectId_examples:
  "castObjectId ''64B7F0C2A1D3E4F5A6B7C8D9'' = Some ''64b7f0c2a1d3e4f5a6b7c8d9''"
  "castObjectId ''64b7f0c2a1d3e4f5a6b7c8d9'' = Some ''64b7f0c2a1d3e4f5a6b7c8d9''"
  "castObjectId ''u1'' = None"
  by (simp_all add: castObjectId_def isObjectId_def isHexDigit_def toLowerHex_def)

text \<open>What holds of \<open>createNotification\<close>: equal strings are suppressed, a reference that
  cannot be cast leaves the collection as it was, and otherwise exactly one document is
  appended, unread.\<close>

lemma createNotification_same_string:
  "toString (recipient args) = toString (sender args)
   \<Longrightarrow> createNotification now args ns = (None, ns)"
  by (simp add: createNotification_def)

lemma createNotification_stores_one:
  assumes "toString (recipient args) \<noteq> toString (sender args)"
    and "castId (recipient args) = Some r" and "castId (sender args) = Some s"
    and "castRef (post args) = Some p" and "castRef (job args) = Some j"
  shows "createNotification now args ns
           = (Some \<lparr> n_recipient = r, n_sender = s, n_type = type args, n_post = p,
                     n_job = j, n_message = message_text args, n_read = False,
                     n_createdAt = now \<rparr>,
              ns @ [\<lparr> n_recipient = r, n_sender = s, n_type = type args, n_post = p,
                      n_job = j, n_message = message_text args, n_read = False,
                      n_createdAt = now \<rparr>])"
  using assms by (simp add: createNotification_def Let_def)

lemma createNotification_rejected:
  assumes "castId (recipient args) = None \<or> castId (sender args) = None
           \<or> castRef (post args) = None \<or> castRef (job args) = None"
  shows "createNotification now args ns = (None, ns)"
  using assms by (auto simp: createNotification_def split: option.splits)

text \<open>
  C2, at the failing input. The claim asks that no notification exists whose recipient
  is its sender. The profile-view handler passes \<open>req.params.userId\<close> as the client
  spelled it; \<open>createNotification\<close> compares the strings, so the user's own identifier
  in upper case is not recognised as the sender's: for the recipient
  \<open>64B7F0C2A1D3E4F5A6B7C8D9\<close> and the sender \<open>64b7f0c2a1d3e4f5a6b7c8d9\<close>, which the
  store casts to the same ObjectId, one notification is stored and returned, and its
  recipient is its sender.
\<close>

theorem createNotification_self_by_spelling:
  "castObjectId ''64B7F0C2A1D3E4F5A6B7C8D9'' = castObjectId ''64b7f0c2a1d3e4f5a6b7c8d9''
   \<and> createNotification 5
         \<lparr> recipient = Raw ''64B7F0C2A1D3E4F5A6B7C8D9'',
           sender = Raw ''64b7f0c2a1d3e4f5a6b7c8d9'', type = profile_view, post = None,
           job = None, message_text = None \<rparr> []
       = (Some \<lparr> n_recipient = ''64b7f0c2a1d3e4f5a6b7c8d9'',
                 n_sender = ''64b7f0c2a1d3e4f5a6b7c8d9'', n_type = profile_view,
                 n_post = None, n_job = None, n_message = None, n_read = False,
                 n_createdAt = 5 \<rparr>,
          [\<lparr> n_recipient = ''64b7f0c2a1d3e4f5a6b7c8d9'',
             n_sender = ''64b7f0c2a1d3e4f5a6b7c8d9'', n_type = profile_view,
             n_post = None, n_job = None, n_message = None, n_read = False,
             n_createdAt = 5 \<rparr>])"
  by (simp add: createNotification_def Let_def castRef_def castObjectId_examples)

subsection \<open>Job match: when the fallback is used\<close>

lemma matchSpan_examples:
  "matchSpan (of_char (CHR ''{'')) (of_char (CHR ''}'')) (str ''I cannot help with that.'') = None"
  "matchSpan (of_char (CHR ''{'')) (of_char (CHR ''}'')) (str ''Sure: {score: high} done'')
     = Some (str ''{score: high}'')"
  by (simp_all add: matchSpan_def str_def)

text \<open>
  The claim C3 says that the fallback answers in three cases: the call to the provider
  fails, the completion cannot be parsed, or it holds no JSON object. When the call
  fails the handler answers 500, and a completion without braces yields the empty
  object.
\<close>

theorem jobMatch_ai_failure_counterexample:
  "jobMatch asciiLowerCase (\<lambda>s. None :: unit option) (Some ''j1'') (Some exampleUser)
       (Some exampleJob) 3 AiError
     = Inl (HttpError 500 ''Failed to analyze job match'')
   \<and> jobMatch asciiLowerCase (\<lambda>s. None :: unit option) (Some ''j1'') (Some exampleUser)
       (Some exampleJob) 3 (AiText (str ''I cannot help with that.''))
     = Inr EmptyMatch"
  by (simp add: jobMatch_def truthy_def matchSpan_def str_def)

text \<open>
  C3, amended. For a request with a job identifier, an existing job and user: when the
  call to the provider fails, the caller receives the error 500
  \<open>Failed to analyze job match\<close>; when the completion holds a span from its first
  \<open>{\<close> to its last \<open>}\<close> that \<open>JSON.parse\<close> rejects, the caller receives the result of the
  deterministic fallback.
\<close>

theorem jobMatch_fallback_on_parse_error:
  "truthy jobIdParam \<Longrightarrow>
   jobMatch toLowerCase JSON_parse jobIdParam (Some u) (Some j) years AiError
     = Inl (HttpError 500 ''Failed to analyze job match'')
   \<and> (\<forall>aiResponse jsonMatch.
         matchSpan (of_char (CHR ''{'')) (of_char (CHR ''}'')) aiResponse = Some jsonMatch
         \<and> JSON_parse jsonMatch = None \<longrightarrow>
         jobMatch toLowerCase JSON_parse jobIdParam (Some u) (Some j) years (AiText aiResponse)
           = Inr (FallbackMatch (fallbackMatch toLowerCase (buildProfile u) j years)))"
  by (simp add: jobMatch_def)

theorem jobMatch_fallback_on_parse_error_witness:
  "truthy (Some ''j1'')
   \<and> matchSpan (of_char (CHR ''{'')) (of_char (CHR ''}'')) (str ''Sure: {score: high} done'')
       = Some (str ''{score: high}'')
   \<and> jobMatch asciiLowerCase (\<lambda>s. None :: unit option) (Some ''j1'') (Some exampleUser)
        (Some exampleJob) 3 AiError
     = Inl (HttpError 500 ''Failed to analyze job match'')
   \<and> jobMatch asciiLowerCase (\<lambda>s. None :: unit option) (Some ''j1'') (Some exampleUser)
        (Some exampleJob) 3 (AiText (str ''Sure: {score: high} done''))
     = Inr (FallbackMatch (fallbackMatch asciiLowerCase (buildProfile exampleUser) exampleJob 3))"
proof -
  have t: "truthy (Some ''j1'')" by (simp add: truthy_def)
  have s: "matchSpan (of_char (CHR ''{'')) (of_char (CHR ''}'')) (str ''Sure: {score: high} done'')
             = Some (str ''{score: high}'')"
    by (rule matchSpan_examples)
  show ?thesis
    using t s
      jobMatch_fallback_on_parse_error
        [OF t, of asciiLowerCase "\<lambda>s. None :: unit option" exampleUser exampleJob 3]
    by blast
qed

subsection \<open>Payment recording\<close>

lemma findPayment_None_iff:
  "findPayment h ps = None \<longleftrightarrow> (\<forall>p\<in>set ps. pay_transactionHash p \<noteq> h)"
  by (auto simp: findPayment_def find_None_iff)

text \<open>
  C6. After a call of the payment recording that succeeded for a transaction hash,
  submitting that hash again (the same body, or any body with this hash and a
  blockchain, by any user at any time) is answered with the conflict error
  \<open>Payment already recorded\<close> and leaves the store as it was, with exactly one ledger
  entry for the hash.
\<close>

theorem verifyEth_duplicate_hash:
  assumes first: "verifyEth env now userId body db = (Inr p, db1)"
    and same: "transactionHash body2 = transactionHash body"
    and chain: "truthy (blockchain body2)"
  shows "verifyEth env2 now2 userId2 body2 db1
           = (Inl (HttpError 400 ''Payment already recorded''), db1)
         \<and> verifyEth env2 now2 userId2 body db1
           = (Inl (HttpError 400 ''Payment already recorded''), db1)
         \<and> ledgerEntries (the (transactionHash body)) db1 = 1"
proof -
  let ?h = "the (transactionHash body)"
  from first have t: "truthy (transactionHash body)" "truthy (blockchain body)"
    by (auto simp: verifyEth_def split: if_splits)
  from first t have fresh: "findPayment ?h (payments db) = None"
    by (auto simp: verifyEth_def split: if_splits)
  from first t fresh
  have ps: "payments db1 = payments db @ [p]" and hp: "pay_transactionHash p = ?h"
    by (auto simp: verifyEth_def Let_def savePayment_def split: if_splits option.splits)
  have found: "findPayment ?h (payments db1) \<noteq> None"
    using hp by (simp add: ps findPayment_None_iff)
  have "verifyEth env2 now2 userId2 body2 db1
          = (Inl (HttpError 400 ''Payment already recorded''), db1)"
    using found t(1) chain same by (simp add: verifyEth_def)
  moreover have "verifyEth env2 now2 userId2 body db1
          = (Inl (HttpError 400 ''Payment already recorded''), db1)"
    using found t by (simp add: verifyEth_def)
  moreover have "ledgerEntries ?h db1 = 1"
    using fresh hp
    by (simp add: ledgerEntries_def ps findPayment_None_iff filter_empty_conv [THEN iffD2])
  ultimately show ?thesis by simp
qed

theorem verifyEth_duplicate_hash_witness:
  "verifyEth exampleEnv 7 ''64b7f0c2a1d3e4f5a6b7c8d9'' exampleBody \<lparr>payments = [], jobs = []\<rparr>
     = (Inr examplePayment, \<lparr>payments = [examplePayment], jobs = []\<rparr>)
   \<and> truthy (blockchain (exampleBody\<lparr>blockchain := Some ''polygon''\<rparr>))
   \<and> verifyEth exampleEnv 9 ''64b7f0c2a1d3e4f5a6b7c8da'' (exampleBody\<lparr>blockchain := Some ''polygon''\<rparr>)
        \<lparr>payments = [examplePayment], jobs = []\<rparr>
     = (Inl (HttpError 400 ''Payment already recorded''),
        \<lparr>payments = [examplePayment], jobs = []\<rparr>)
   \<and> ledgerEntries ''0xabc'' \<lparr>payments = [examplePayment], jobs = []\<rparr> = 1"
proof -
  have first: "verifyEth exampleEnv 7 ''64b7f0c2a1d3e4f5a6b7c8d9'' exampleBody \<lparr>payments = [], jobs = []\<rparr>
                 = (Inr examplePayment, \<lparr>payments = [examplePayment], jobs = []\<rparr>)"
    by (simp add: verifyEth_def exampleEnv_def exampleBody_def examplePayment_def truthy_def
          findPayment_def savePayment_def validPayment_def Let_def castOrKeep_def
          castObjectId_examples)
  have same: "transactionHash (exampleBody\<lparr>blockchain := Some ''polygon''\<rparr>)
                = transactionHash exampleBody"
    by simp
  have chain: "truthy (blockchain (exampleBody\<lparr>blockchain := Some ''polygon''\<rparr>))"
    by (simp add: truthy_def)
  have h: "the (transactionHash exampleBody) = ''0xabc''"
    by (simp add: exampleBody_def)
  show ?thesis
    using first chain
      verifyEth_duplicate_hash [OF first same chain, of exampleEnv 9 "''64b7f0c2a1d3e4f5a6b7c8da''"]
    by (simp add: h)
qed

subsection \<open>Skill extraction\<close>

lemma split_not_Nil: "split sep xs \<noteq> []"
  by (induction xs) (auto split: list.splits)

lemma concat_split: "concat (split sep xs) = filter (\<lambda>c. \<not> sep c) xs"
  by (induction xs) (auto split: list.splits simp: split_not_Nil)

lemma set_pieces: "(\<Union>s\<in>set (split sep xs). set s) = {c \<in> set xs. \<not> sep c}"
proof -
  have "set (concat (split sep xs)) = {c \<in> set xs. \<not> sep c}"
    by (simp add: concat_split)
  then show ?thesis by simp
qed

lemma set_trim: "set (trim s) \<subseteq> set s"
proof -
  have "set (trim s) = set (dropWhile isWhiteSpace (rev (dropWhile isWhiteSpace s)))"
    by (simp add: trim_def)
  also have "\<dots> \<subseteq> set (rev (dropWhile isWhiteSpace s))"
    by (rule set_dropWhileD [THEN subsetI])
  also have "\<dots> \<subseteq> set s"
    using set_dropWhileD by fastforce
  finally show ?thesis .
qed

lemma dropWhile_all_iff:
  "(\<forall>x\<in>set (dropWhile P xs). P x) \<longleftrightarrow> (\<forall>x\<in>set xs. P x)"
  by (induction xs) auto

lemma trim_Nil_iff: "trim s = [] \<longleftrightarrow> (\<forall>c\<in>set s. isWhiteSpace c)"
  by (simp add: trim_def dropWhile_all_iff)

lemma last_dropWhile_ne: "dropWhile P xs \<noteq> [] \<Longrightarrow> last (dropWhile P xs) = last xs"
  by (induction xs) (auto split: if_splits)

lemma trim_ends:
  assumes "trim s \<noteq> []"
  shows "\<not> isWhiteSpace (hd (trim s)) \<and> \<not> isWhiteSpace (last (trim s))"
proof -
  let ?d = "dropWhile isWhiteSpace s"
  let ?e = "dropWhile isWhiteSpace (rev ?d)"
  have e: "?e \<noteq> []" using assms by (simp add: trim_def)
  then have d: "?d \<noteq> []" by (auto dest: set_dropWhileD)
  have "last (trim s) = hd ?e" using e by (simp add: trim_def last_rev)
  moreover have "\<not> isWhiteSpace (hd ?e)" using e by (rule hd_dropWhile)
  moreover have "hd (trim s) = last ?e" using e by (simp add: trim_def hd_rev)
  moreover have "last ?e = last (rev ?d)" using e by (rule last_dropWhile_ne)
  moreover have "last (rev ?d) = hd ?d" using d by (simp add: last_rev)
  moreover have "\<not> isWhiteSpace (hd ?d)" using d by (rule hd_dropWhile)
  ultimately show ?thesis by simp
qed

lemma newline_isWhiteSpace: "isWhiteSpace (of_char (CHR 0x0A))"
  by (simp add: isWhiteSpace_def)

lemma splitSkills_entry:
  assumes "s \<in> set (splitSkills t)"
  shows "s \<noteq> [] \<and> \<not> isWhiteSpace (hd s) \<and> \<not> isWhiteSpace (last s)
         \<and> (\<forall>c\<in>set s. \<not> isQuoteOrBracket c \<and> \<not> isCommaOrNewline c)"
proof -
  let ?clean = "filter (\<lambda>c. \<not> isQuoteOrBracket c) t"
  from assms obtain piece where piece: "piece \<in> set (split isCommaOrNewline ?clean)"
    and s: "s = trim piece" and ne: "s \<noteq> []"
    by (auto simp: splitSkills_def)
  have "set piece \<subseteq> {c \<in> set ?clean. \<not> isCommaOrNewline c}"
    using piece set_pieces [of isCommaOrNewline ?clean] by blast
  then have "\<forall>c\<in>set s. \<not> isQuoteOrBracket c \<and> \<not> isCommaOrNewline c"
    using set_trim [of piece] s by auto
  moreover have "\<not> isWhiteSpace (hd s) \<and> \<not> isWhiteSpace (last s)"
    using trim_ends [of piece] ne s by simp
  ultimately show ?thesis using ne by simp
qed

lemma splitSkills_not_Nil_iff:
  "splitSkills t \<noteq> [] \<longleftrightarrow>
     (\<exists>c\<in>set t. \<not> isWhiteSpace c \<and> \<not> isQuoteOrBracket c \<and> c \<noteq> of_char (CHR '',''))"
proof -
  let ?clean = "filter (\<lambda>c. \<not> isQuoteOrBracket c) t"
  have "splitSkills t \<noteq> [] \<longleftrightarrow>
          (\<exists>piece\<in>set (split isCommaOrNewline ?clean). trim piece \<noteq> [])"
    by (auto simp: splitSkills_def filter_empty_conv)
  also have "\<dots> \<longleftrightarrow>
          (\<exists>piece\<in>set (split isCommaOrNewline ?clean). \<exists>c\<in>set piece. \<not> isWhiteSpace c)"
    by (simp add: trim_Nil_iff)
  also have "\<dots> \<longleftrightarrow>
          (\<exists>c\<in>(\<Union>s\<in>set (split isCommaOrNewline ?clean). set s). \<not> isWhiteSpace c)"
    by blast
  also have "\<dots> \<longleftrightarrow>
          (\<exists>c\<in>set t. \<not> isQuoteOrBracket c \<and> \<not> isCommaOrNewline c \<and> \<not> isWhiteSpace c)"
    unfolding set_pieces by auto
  also have "\<dots> \<longleftrightarrow>
          (\<exists>c\<in>set t. \<not> isWhiteSpace c \<and> \<not> isQuoteOrBracket c \<and> c \<noteq> of_char (CHR '',''))"
    using newline_isWhiteSpace by (auto simp: isCommaOrNewline_def)
  finally show ?thesis .
qed

lemma splitSkills_example:
  "splitSkills (str ''Python, React\<newline>Team work'')
     = [str ''Python'', str ''React'', str ''Team work'']"
  by (simp add: splitSkills_def str_def isQuoteOrBracket_def isCommaOrNewline_def trim_def
        isWhiteSpace_def)

text \<open>
  The claim C7 says that a completion without a JSON array always yields a list that
  is not empty. An empty completion yields the empty list, and so does one made of a
  no-break space and a line separator.
\<close>

theorem extractSkills_empty_counterexample:
  "matchSpan (of_char (CHR ''['')) (of_char (CHR '']'')) [] = None
   \<and> extractSkills (\<lambda>s. None :: unit list option) (JString (str ''I know Python''))
         (AiText [])
       = Inr (SplitSkills [])
   \<and> extractSkills (\<lambda>s. None :: unit list option) (JString (str ''I know Python''))
         (AiText [160, 8232])
       = Inr (SplitSkills [])"
  by (simp add: matchSpan_def extractSkills_def truthyValue_def splitSkills_def trim_def
        str_def isQuoteOrBracket_def isCommaOrNewline_def isWhiteSpace_def)

text \<open>
  C7, amended. For a request with a text and a completion that holds no JSON array (no
  span from a \<open>[\<close> to a \<open>]\<close>, or a span that \<open>JSON.parse\<close> rejects), the operation
  answers successfully with the first 20 entries obtained by removing quotes and
  brackets and splitting at commas and newlines; every entry is trimmed, not empty and
  free of quotes, brackets, commas and newlines. The list is not empty exactly when the
  completion has a character that is neither white space nor a quote, a bracket or a
  comma.
\<close>

theorem extractSkills_split_fallback:
  assumes "truthyValue text"
    and "\<forall>s. matchSpan (of_char (CHR ''['')) (of_char (CHR '']'')) aiResponse = Some s \<longrightarrow> JSON_parse s = None"
  shows "\<exists>ys. extractSkills JSON_parse text (AiText aiResponse) = Inr (SplitSkills ys)
          \<and> ys = take 20 (splitSkills aiResponse) \<and> length ys \<le> 20
          \<and> (\<forall>s\<in>set ys. s \<noteq> [] \<and> \<not> isWhiteSpace (hd s) \<and> \<not> isWhiteSpace (last s)
                \<and> (\<forall>c\<in>set s. \<not> isQuoteOrBracket c \<and> \<not> isCommaOrNewline c))
          \<and> (ys \<noteq> [] \<longleftrightarrow>
               (\<exists>c\<in>set aiResponse.
                   \<not> isWhiteSpace c \<and> \<not> isQuoteOrBracket c \<and> c \<noteq> of_char (CHR '','')))"
proof -
  let ?ys = "take 20 (splitSkills aiResponse)"
  have r: "extractSkills JSON_parse text (AiText aiResponse) = Inr (SplitSkills ?ys)"
    using assms by (auto simp: extractSkills_def split: option.splits)
  have e: "\<forall>s\<in>set ?ys. s \<noteq> [] \<and> \<not> isWhiteSpace (hd s) \<and> \<not> isWhiteSpace (last s)
                \<and> (\<forall>c\<in>set s. \<not> isQuoteOrBracket c \<and> \<not> isCommaOrNewline c)"
    using splitSkills_entry in_set_takeD by fast
  have n: "?ys \<noteq> [] \<longleftrightarrow> splitSkills aiResponse \<noteq> []" by simp
  show ?thesis
    using r e n splitSkills_not_Nil_iff [of aiResponse] by simp
qed

theorem extractSkills_split_fallback_witness:
  "truthyValue (JString (str ''I know Python''))
   \<and> matchSpan (of_char (CHR ''['')) (of_char (CHR '']''))
         (str ''Python, React\<newline>Team work'')
       = None
   \<and> extractSkills (\<lambda>s. None :: unit list option) (JString (str ''I know Python''))
        (AiText (str ''Python, React\<newline>Team work''))
       = Inr (SplitSkills [str ''Python'', str ''React'', str ''Team work''])"
proof -
  have t: "truthyValue (JString (str ''I know Python''))"
    by (simp add: truthyValue_def str_def)
  have m: "matchSpan (of_char (CHR ''['')) (of_char (CHR '']''))
             (str ''Python, React\<newline>Team work'') = None"
    by (simp add: matchSpan_def str_def)
  have h: "\<forall>s. matchSpan (of_char (CHR ''['')) (of_char (CHR '']''))
                 (str ''Python, React\<newline>Team work'') = Some s
              \<longrightarrow> (\<lambda>s. None :: unit list option) s = None"
    by simp
  show ?thesis
    using t m extractSkills_split_fallback [OF t h]
    by (auto simp: splitSkills_example)
qed

subsection \<open>Sending a message to oneself\<close>

text \<open>The self-check works for the identifier spelled as the authenticated user's own:
  whatever the rest of the request is, nothing is stored.\<close>

lemma sendMessage_same_spelling:
  "receiverId body = Some userId \<Longrightarrow> \<exists>e. sendMessage userId body db = (Inl e, db)"
  by (auto simp: sendMessage_def split: js_value.splits option.splits)

text \<open>
  C9, at the failing input. The claim asks that a request whose receiver is the
  authenticated sender fails with 400 and creates no message. The user
  \<open>64b7f0c2a1d3e4f5a6b7c8d9\<close> sends \<open>hi\<close> to \<open>64B7F0C2A1D3E4F5A6B7C8D9\<close>, their own
  identifier in upper case: \<open>User.findById\<close> casts it and finds the user's own document,
  the comparison \<open>receiverId === req.userId\<close> of the two strings fails, and the handler
  answers 201 with a stored message whose sender is its receiver, under a conversation
  key made of the two spellings.
\<close>

theorem sendMessage_self_by_spelling:
  "castObjectId ''64B7F0C2A1D3E4F5A6B7C8D9'' = castObjectId ''64b7f0c2a1d3e4f5a6b7c8d9''
   \<and> sendMessage ''64b7f0c2a1d3e4f5a6b7c8d9''
         \<lparr> receiverId = Some ''64B7F0C2A1D3E4F5A6B7C8D9'', content = JString (str ''hi'') \<rparr>
         \<lparr> users = [''64b7f0c2a1d3e4f5a6b7c8d9''], messages = [] \<rparr>
       = (Inr \<lparr> m_conversationId = ''64B7F0C2A1D3E4F5A6B7C8D9_64b7f0c2a1d3e4f5a6b7c8d9'',
                m_sender = ''64b7f0c2a1d3e4f5a6b7c8d9'',
                m_receiver = ''64b7f0c2a1d3e4f5a6b7c8d9'',
                m_content = str ''hi'', m_read = False \<rparr>,
          \<lparr> users = [''64b7f0c2a1d3e4f5a6b7c8d9''],
            messages = [\<lparr> m_conversationId =
                             ''64B7F0C2A1D3E4F5A6B7C8D9_64b7f0c2a1d3e4f5a6b7c8d9'',
                           m_sender = ''64b7f0c2a1d3e4f5a6b7c8d9'',
                           m_receiver = ''64b7f0c2a1d3e4f5a6b7c8d9'',
                           m_content = str ''hi'', m_read = False \<rparr>] \<rparr>)"
proof -
  have key: "generateConversationId ''64b7f0c2a1d3e4f5a6b7c8d9'' ''64B7F0C2A1D3E4F5A6B7C8D9''
               = ''64B7F0C2A1D3E4F5A6B7C8D9_64b7f0c2a1d3e4f5a6b7c8d9''"
    by code_simp
  have hi: "trim (str ''hi'') = str ''hi''"
    by (simp add: trim_def str_def isWhiteSpace_def)
  have ne: "str ''hi'' \<noteq> []" by (simp add: str_def)
  show ?thesis
    by (simp add: sendMessage_def truthy_def truthyValue_def castObjectId_examples key hi ne
          Let_def)
qed

theorem sendMessage_self_by_spelling_witness:
  "map (\<lambda>m. (m_sender m, m_receiver m))
     (messages (snd (sendMessage ''64b7f0c2a1d3e4f5a6b7c8d9''
                       \<lparr> receiverId = Some ''64B7F0C2A1D3E4F5A6B7C8D9'',
                         content = JString (str ''hi'') \<rparr>
                       \<lparr> users = [''64b7f0c2a1d3e4f5a6b7c8d9''], messages = [] \<rparr>)))
     = [(''64b7f0c2a1d3e4f5a6b7c8d9'', ''64b7f0c2a1d3e4f5a6b7c8d9'')]"
  using sendMessage_self_by_spelling by simp

subsection \<open>Pagination\<close>

lemma beyond_last_page:
  assumes "1 \<le> limit" and "\<lceil>rat_of_nat n / rat_of_int limit\<rceil> < page"
  shows "0 \<le> (page - 1) * limit \<and> n \<le> nat ((page - 1) * limit)"
proof -
  have pos: "0 < rat_of_int limit" using assms(1) by simp
  have "\<lceil>rat_of_nat n / rat_of_int limit\<rceil> \<le> page - 1" using assms(2) by simp
  then have "rat_of_nat n / rat_of_int limit \<le> rat_of_int (page - 1)"
    by (simp only: ceiling_le_iff)
  then have "rat_of_nat n \<le> rat_of_int (page - 1) * rat_of_int limit"
    using pos by (simp add: pos_divide_le_eq)
  then have "rat_of_int (int n) \<le> rat_of_int ((page - 1) * limit)"
    by simp
  then have le: "int n \<le> (page - 1) * limit"
    by (simp only: of_int_le_iff)
  then show ?thesis by linarith
qed

lemma cursor_beyond:
  assumes "1 \<le> limit" and "\<lceil>rat_of_nat (length xs) / rat_of_int limit\<rceil> < page"
  shows "cursor ((page - 1) * limit) limit xs = Some []"
  using beyond_last_page [OF assms] assms(1) by (simp add: cursor_def)

lemma ceiling_examples:
  "\<lceil>(3 :: rat) / 2\<rceil> = 2" "\<lceil>(1 :: rat) / 2\<rceil> = 1"
  by code_simp+

text \<open>
  The claim C8 is stated for every \<open>page\<close> and \<open>limit\<close>. The handlers do not validate
  them: with \<open>limit = -1\<close> the page count is negative, and page 1, which is greater,
  is not empty; with \<open>limit = 0\<close> the page count is not a number.
\<close>

theorem pagination_unvalidated_limit_counterexample:
  "getFeed 1 (- 1) [examplePost [], examplePost [''u1'']]
     = Inr ([examplePost [''u1'']],
            \<lparr>pg_page = 1, pg_limit = - 1, pg_total = 2, pg_pages = Some (- 2)\<rparr>)
   \<and> getFeed 1 0 [examplePost [], examplePost [''u1'']]
     = Inr ([examplePost [''u1''], examplePost []],
            \<lparr>pg_page = 1, pg_limit = 0, pg_total = 2, pg_pages = None\<rparr>)"
  by (simp add: getFeed_def examplePost_def cursor_def pageCount_def ceiling_examples)

text \<open>
  C8, amended. For every paginated list query (the feed and the job list) whose
  \<open>limit\<close> is at least 1, a successful response has \<open>pages = ceil(total / limit)\<close>,
  \<open>total\<close> being the number of matching documents, and a request for a page greater
  than \<open>pages\<close> is answered successfully with an empty list of items.
\<close>

theorem pagination_pages_and_overflow:
  "1 \<le> limit \<Longrightarrow>
   (\<forall>items pg. getFeed page limit allPosts = Inr (items, pg) \<longrightarrow>
        pg_pages pg = Some \<lceil>rat_of_nat (pg_total pg) / rat_of_int limit\<rceil>
        \<and> pg_total pg = length (filter (\<lambda>p. p_visibility p = ''public'') allPosts)
        \<and> (the (pg_pages pg) < page \<longrightarrow> items = []))
   \<and> (\<lceil>rat_of_nat (length (filter (\<lambda>p. p_visibility p = ''public'') allPosts))
          / rat_of_int limit\<rceil> < page
        \<longrightarrow> (\<exists>pg. getFeed page limit allPosts = Inr ([], pg)))
   \<and> (\<forall>items pg. getJobs filters sortKey page limit allJobs = Inr (items, pg) \<longrightarrow>
        pg_pages pg = Some \<lceil>rat_of_nat (pg_total pg) / rat_of_int limit\<rceil>
        \<and> pg_total pg
            = length (filter (\<lambda>j. job_status j = ''active'' \<and> filters j) allJobs)
        \<and> (the (pg_pages pg) < page \<longrightarrow> items = []))
   \<and> (\<lceil>rat_of_nat (length (filter (\<lambda>j. job_status j = ''active'' \<and> filters j) allJobs))
          / rat_of_int limit\<rceil> < page
        \<longrightarrow> (\<exists>pg. getJobs filters sortKey page limit allJobs = Inr ([], pg)))"
proof -
  assume l: "1 \<le> limit"
  let ?feed = "rev (sort_key p_createdAt (filter (\<lambda>p. p_visibility p = ''public'') allPosts))"
  let ?jobs = "sort_key sortKey (filter (\<lambda>j. job_status j = ''active'' \<and> filters j) allJobs)"
  have lf: "length ?feed = length (filter (\<lambda>p. p_visibility p = ''public'') allPosts)"
    by simp
  have lj: "length ?jobs
              = length (filter (\<lambda>j. job_status j = ''active'' \<and> filters j) allJobs)"
    by simp
  have f2: "\<lceil>rat_of_nat (length ?feed) / rat_of_int limit\<rceil> < page
              \<Longrightarrow> cursor ((page - 1) * limit) limit ?feed = Some []"
    using cursor_beyond [OF l] by blast
  have j2: "\<lceil>rat_of_nat (length ?jobs) / rat_of_int limit\<rceil> < page
              \<Longrightarrow> cursor ((page - 1) * limit) limit ?jobs = Some []"
    using cursor_beyond [OF l] by blast
  have nz: "limit \<noteq> 0" using l by simp
  show ?thesis
    using f2 j2 nz unfolding lf lj
    by (auto simp: getFeed_def getJobs_def Let_def pageCount_def split: option.splits)
qed

theorem pagination_pages_and_overflow_witness:
  "(1 :: int) \<le> 2
   \<and> getFeed 3 2 [examplePost [], examplePost [''u1''], examplePost [''u2'']]
       = Inr ([], \<lparr>pg_page = 3, pg_limit = 2, pg_total = 3, pg_pages = Some 2\<rparr>)
   \<and> getJobs (\<lambda>j. True) (\<lambda>j. 0) 2 2 [exampleJob]
       = Inr ([], \<lparr>pg_page = 2, pg_limit = 2, pg_total = 1, pg_pages = Some 1\<rparr>)"
proof -
  have l: "(1 :: int) \<le> 2" by simp
  have f: "getFeed 3 2 [examplePost [], examplePost [''u1''], examplePost [''u2'']]
       = Inr ([], \<lparr>pg_page = 3, pg_limit = 2, pg_total = 3, pg_pages = Some 2\<rparr>)"
    by (simp add: getFeed_def examplePost_def cursor_def pageCount_def ceiling_examples)
  have j: "getJobs (\<lambda>j. True) (\<lambda>j. 0) 2 2 [exampleJob]
       = Inr ([], \<lparr>pg_page = 2, pg_limit = 2, pg_total = 1, pg_pages = Some 1\<rparr>)"
    by (simp add: getJobs_def exampleJob_def cursor_def pageCount_def ceiling_examples)
  show ?thesis
    using l f j
      pagination_pages_and_overflow
        [OF l, of 3 "[examplePost [], examplePost [''u1''], examplePost [''u2'']]"
           "\<lambda>j. True" "\<lambda>j. 0" "[exampleJob]"]
    by simp
qed

subsection \<open>Liking a post\<close>

lemma indexOf_found_iff: "indexOf xs x > - 1 \<longleftrightarrow> x \<in> set xs"
  by (induction xs) (auto simp: Let_def)

lemma splice1_indexOf: "x \<in> set xs \<Longrightarrow> splice1 xs (indexOf xs x) = remove1 x xs"
proof (induction xs)
  case Nil
  then show ?case by simp
next
  case (Cons y ys)
  show ?case
  proof (cases "y = x")
    case True
    then show ?thesis by (simp add: splice1_def)
  next
    case False
    with Cons.prems have in_ys: "x \<in> set ys" by simp
    then have pos: "indexOf ys x > - 1" by (simp add: indexOf_found_iff)
    then have n: "nat (indexOf ys x + 1) = Suc (nat (indexOf ys x))" by simp
    have "splice1 ys (indexOf ys x) = remove1 x ys" using Cons.IH in_ys by simp
    then show ?thesis using False pos n by (simp add: splice1_def Let_def)
  qed
qed

lemma findPost_savePost:
  "findPost postId ps = Some p \<Longrightarrow> findPost postId (savePost postId p' ps) = Some p'"
  unfolding findPost_def savePost_def
  by (induction ps) (auto split: if_splits)

lemma likePost_unlike:
  assumes "findPost postId (posts db) = Some p" and "userId \<in> set (p_likes p)"
  shows "likePost now userId postId db =
           (Inr (''Post unliked'', length (p_likes p) - 1),
            db\<lparr>posts := savePost postId (p\<lparr>p_likes := remove1 userId (p_likes p)\<rparr>)
                          (posts db)\<rparr>)"
proof -
  have "indexOf (p_likes p) userId > - 1" using assms(2) by (simp add: indexOf_found_iff)
  then show ?thesis
    using assms by (simp add: likePost_def Let_def splice1_indexOf length_remove1)
qed

lemma likePost_like:
  assumes "findPost postId (posts db) = Some p" and "userId \<notin> set (p_likes p)"
  shows "likePost now userId postId db =
           (Inr (''Post liked'', length (p_likes p) + 1),
            db\<lparr>posts := savePost postId (p\<lparr>p_likes := p_likes p @ [userId]\<rparr>) (posts db),
               notifications :=
                 (if p_author p = userId then notifications db
                  else notifications db @
                    [\<lparr> n_recipient = p_author p, n_sender = userId, n_type = post_like,
                       n_post = Some postId, n_job = None, n_message = None,
                       n_read = False, n_createdAt = now \<rparr>])\<rparr>)"
proof -
  have "\<not> indexOf (p_likes p) userId > - 1" using assms(2) by (simp add: indexOf_found_iff)
  then show ?thesis
    using assms by (simp add: likePost_def Let_def createNotification_def castRef_def)
qed

lemma exampleStore_likes:
  "findPost ''p1'' (posts exampleStore) = Some (examplePost [''u1'', ''u2''])"
  "likesOf exampleStore ''p1'' = Some [''u1'', ''u2'']"
  "likesOf (snd (likePost 3 ''u1'' ''p1'' exampleStore)) ''p1'' = Some [''u2'']"
  "likesOf (snd (likePost 4 ''u1'' ''p1'' (snd (likePost 3 ''u1'' ''p1'' exampleStore)))) ''p1''
     = Some [''u2'', ''u1'']"
  "likesOf (snd (likePost 3 ''u3'' ''p1'' exampleStore)) ''p1'' = Some [''u1'', ''u2'', ''u3'']"
  "likesOf (snd (likePost 4 ''u3'' ''p1'' (snd (likePost 3 ''u3'' ''p1'' exampleStore)))) ''p1''
     = Some [''u1'', ''u2'']"
  by (simp_all add: likePost_def exampleStore_def examplePost_def findPost_def savePost_def
        likesOf_def splice1_def createNotification_def castRef_def Let_def)

text \<open>
  The claim C10 says that liking twice restores the likes list. When the user is in the
  list but not at its end, the second like appends the user again, behind the others.
\<close>

theorem likePost_twice_counterexample:
  "likesOf exampleStore ''p1'' = Some [''u1'', ''u2'']
   \<and> likesOf (snd (likePost 4 ''u1'' ''p1'' (snd (likePost 3 ''u1'' ''p1'' exampleStore))))
        ''p1''
     = Some [''u2'', ''u1'']
   \<and> likesOf (snd (likePost 4 ''u1'' ''p1'' (snd (likePost 3 ''u1'' ''p1'' exampleStore))))
        ''p1''
     \<noteq> likesOf exampleStore ''p1''"
  by (simp add: exampleStore_likes)

text \<open>
  C10, amended. Liking an existing post is a toggle. A user who is in the likes list is
  removed from it and no notification is created; a user who is not in it is appended,
  and \<open>createNotification\<close> is called for the author, which stores one \<open>post_like\<close>
  notification unless the author is the user. A list without duplicates stays without
  duplicates. Liking twice restores the list itself when the user was not in it, and
  for a list without duplicates it restores the same users in the same number, the
  user having moved to the end when they were in it.
\<close>

theorem likePost_toggle:
  assumes found: "findPost postId (posts db) = Some p"
  shows "let db1 = snd (likePost now userId postId db);
             db2 = snd (likePost later userId postId db1)
         in (userId \<in> set (p_likes p) \<longrightarrow>
               fst (likePost now userId postId db)
                 = Inr (''Post unliked'', length (p_likes p) - 1)
               \<and> likesOf db1 postId = Some (remove1 userId (p_likes p))
               \<and> notifications db1 = notifications db)
          \<and> (userId \<notin> set (p_likes p) \<longrightarrow>
               fst (likePost now userId postId db)
                 = Inr (''Post liked'', length (p_likes p) + 1)
               \<and> likesOf db1 postId = Some (p_likes p @ [userId])
               \<and> notifications db1 =
                   (if p_author p = userId then notifications db
                    else notifications db @
                      [\<lparr> n_recipient = p_author p, n_sender = userId, n_type = post_like,
                         n_post = Some postId, n_job = None, n_message = None,
                         n_read = False, n_createdAt = now \<rparr>])
               \<and> likesOf db2 postId = Some (p_likes p))
          \<and> (distinct (p_likes p) \<longrightarrow>
               (\<exists>l1 l2. likesOf db1 postId = Some l1 \<and> distinct l1
                  \<and> likesOf db2 postId = Some l2 \<and> distinct l2
                  \<and> set l2 = set (p_likes p) \<and> length l2 = length (p_likes p)
                  \<and> (userId \<in> set (p_likes p) \<longrightarrow>
                       l2 = remove1 userId (p_likes p) @ [userId])))"
proof (cases "userId \<in> set (p_likes p)")
  case True
  let ?p1 = "p\<lparr>p_likes := remove1 userId (p_likes p)\<rparr>"
  let ?db1 = "db\<lparr>posts := savePost postId ?p1 (posts db)\<rparr>"
  have s1: "likePost now userId postId db
              = (Inr (''Post unliked'', length (p_likes p) - 1), ?db1)"
    using found True by (rule likePost_unlike)
  have f1: "findPost postId (posts ?db1) = Some ?p1"
    using found by (simp add: findPost_savePost)
  have l1: "likesOf ?db1 postId = Some (remove1 userId (p_likes p))"
    using f1 by (simp add: likesOf_def)
  have d: "distinct (p_likes p) \<Longrightarrow> userId \<notin> set (p_likes ?p1)" by simp
  have s2: "distinct (p_likes p) \<Longrightarrow>
              likesOf (snd (likePost later userId postId ?db1)) postId
                = Some (remove1 userId (p_likes p) @ [userId])"
  proof -
    assume dist: "distinct (p_likes p)"
    have "likePost later userId postId ?db1 =
           (Inr (''Post liked'', length (p_likes ?p1) + 1),
            ?db1\<lparr>posts := savePost postId (?p1\<lparr>p_likes := p_likes ?p1 @ [userId]\<rparr>)
                            (posts ?db1),
               notifications :=
                 (if p_author ?p1 = userId then notifications ?db1
                  else notifications ?db1 @
                    [\<lparr> n_recipient = p_author ?p1, n_sender = userId, n_type = post_like,
                       n_post = Some postId, n_job = None, n_message = None,
                       n_read = False, n_createdAt = later \<rparr>])\<rparr>)"
      using f1 d [OF dist] by (rule likePost_like)
    then show ?thesis
      using f1 by (simp add: likesOf_def findPost_savePost)
  qed
  have perm: "distinct (p_likes p) \<Longrightarrow>
                set (remove1 userId (p_likes p) @ [userId]) = set (p_likes p)"
    using True by auto
  have len: "length (remove1 userId (p_likes p) @ [userId]) = length (p_likes p)"
    using True length_pos_if_in_set [OF True] by (simp add: length_remove1)
  show ?thesis
    unfolding Let_def using True s1 l1 s2 perm len by (simp add: s1)
next
  case False
  let ?p1 = "p\<lparr>p_likes := p_likes p @ [userId]\<rparr>"
  let ?ns = "(if p_author p = userId then notifications db
                  else notifications db @
                    [\<lparr> n_recipient = p_author p, n_sender = userId, n_type = post_like,
                       n_post = Some postId, n_job = None, n_message = None,
                       n_read = False, n_createdAt = now \<rparr>])"
  let ?db1 = "db\<lparr>posts := savePost postId ?p1 (posts db), notifications := ?ns\<rparr>"
  have s1: "likePost now userId postId db
              = (Inr (''Post liked'', length (p_likes p) + 1), ?db1)"
    using found False by (rule likePost_like)
  have f1: "findPost postId (posts ?db1) = Some ?p1"
    using found by (simp add: findPost_savePost)
  have l1: "likesOf ?db1 postId = Some (p_likes p @ [userId])"
    using f1 by (simp add: likesOf_def)
  have "likePost later userId postId ?db1 =
           (Inr (''Post unliked'', length (p_likes ?p1) - 1),
            ?db1\<lparr>posts := savePost postId (?p1\<lparr>p_likes := remove1 userId (p_likes ?p1)\<rparr>)
                            (posts ?db1)\<rparr>)"
    using f1 by (rule likePost_unlike) simp
  then have s2: "likesOf (snd (likePost later userId postId ?db1)) postId = Some (p_likes p)"
    using f1 False by (simp add: likesOf_def findPost_savePost remove1_append)
  show ?thesis
    unfolding Let_def using False l1 s2 by (simp add: s1)
qed

theorem likePost_toggle_witness:
  "findPost ''p1'' (posts exampleStore) = Some (examplePost [''u1'', ''u2''])
   \<and> likesOf (snd (likePost 3 ''u1'' ''p1'' exampleStore)) ''p1'' = Some [''u2'']
   \<and> likesOf (snd (likePost 3 ''u3'' ''p1'' exampleStore)) ''p1'' = Some [''u1'', ''u2'', ''u3'']
   \<and> likesOf (snd (likePost 4 ''u3'' ''p1'' (snd (likePost 3 ''u3'' ''p1'' exampleStore))))
        ''p1''
     = Some [''u1'', ''u2'']"
proof -
  have found: "findPost ''p1'' (posts exampleStore) = Some (examplePost [''u1'', ''u2''])"
    by (rule exampleStore_likes)
  have likes: "p_likes (examplePost [''u1'', ''u2'']) = [''u1'', ''u2'']"
    by (simp add: examplePost_def)
  show ?thesis
    using found
      likePost_toggle [OF found, where userId = "''u1''" and now = 3 and later = 4]
      likePost_toggle [OF found, where userId = "''u3''" and now = 3 and later = 4]
    by (simp add: likes Let_def)
qed


end
